theory Spec2Isabelle
  imports Complex_Main "HOL-Library.Product_Lexorder"
begin

section \<open>Inventory analytics engine: data model\<close>

text \<open>
  The analyzers of \<^verbatim>\<open>src/tools\<close> are read-only queries over the tables of
  \<^verbatim>\<open>src/database/schema.py\<close>. A table is the list of its rows; a query is a list
  comprehension over these lists, with the filters of the source in the source's order.

  Numbers. The \<^verbatim>\<open>Numeric\<close> columns are exact decimals and are rationals here. The
  analyzers convert them with \<^verbatim>\<open>float(...)\<close> before most of their arithmetic; the model
  computes with the exact rational instead, so a statement below is about the arithmetic the
  code writes down, not about binary rounding of intermediate results. Status and class
  labels stay the strings the source compares and returns.

  Time. A \<^verbatim>\<open>datetime\<close> is the number of microseconds since \<^verbatim>\<open>datetime.min\<close>, a
  \<^verbatim>\<open>date\<close> the number of days since \<^verbatim>\<open>date.min\<close>. The clock
  (\<^verbatim>\<open>datetime.now()\<close>) is an argument \<open>now\<close> of every analyzer. Day counts are
  unbounded integers; the \<^verbatim>\<open>OverflowError\<close> of a date outside Python's range is not
  modelled.

  Order. A query without \<^verbatim>\<open>ORDER BY\<close> returns its rows in table order, and a query with
  one keeps table order among rows with equal keys, as Python's \<^verbatim>\<open>list.sort\<close> does; both
  are \<open>sort_key\<close> here, a stable insertion sort. No statement below depends on the order of
  rows with equal keys.

  Output. A result row is a record of fields of the returned dictionary. Texts made for
  display (messages, ISO dates, the wording after the label of a recommendation) are left
  out, and so are the summary and metrics blocks of the aggregator and the fields of its
  collaborators that it does not read.
\<close>

type_synonym py_date = int
type_synonym py_datetime = int

definition day_us :: int where
  "day_us = 86400000000"

text \<open>\<^verbatim>\<open>dt.date()\<close>\<close>
definition date_of :: "py_datetime \<Rightarrow> py_date" where
  "date_of t = t div day_us"

text \<open>\<^verbatim>\<open>dt - timedelta(days=n)\<close>\<close>
definition minus_days :: "py_datetime \<Rightarrow> int \<Rightarrow> py_datetime" where
  "minus_days t n = t - n * day_us"

text \<open>\<^verbatim>\<open>(a - b).days\<close> for two datetimes: a timedelta is normalised with a
  non-negative sub-day part, so \<^verbatim>\<open>.days\<close> is the floor.\<close>
definition delta_days :: "py_datetime \<Rightarrow> py_datetime \<Rightarrow> int" where
  "delta_days a b = (a - b) div day_us"

record product =
  p_id :: int
  p_sku :: string
  p_name :: string
  p_category :: "string option"
  sale_price :: rat
  cost_price :: rat
  current_stock :: rat
  min_stock :: rat
  is_active :: bool

record sale_order =
  so_id :: int
  sale_date :: py_date
  so_status :: string

record sale_order_item =
  soi_sale_order_id :: int
  soi_product_id :: int
  soi_quantity :: rat
  soi_unit_price :: rat

record purchase_order =
  po_id :: int
  po_order_number :: string
  order_date :: py_date
  po_status :: string

record purchase_order_item =
  poi_purchase_order_id :: int
  poi_product_id :: int
  poi_quantity :: rat
  poi_unit_price :: rat

record stock_movement =
  sm_product_id :: int
  movement_type :: string
  sm_quantity :: rat
  unit_cost :: "rat option"
  stock_before :: rat
  stock_after :: rat
  movement_date :: py_datetime

record database =
  products :: "product list"
  sale_orders :: "sale_order list"
  sale_order_items :: "sale_order_item list"
  purchase_orders :: "purchase_order list"
  purchase_order_items :: "purchase_order_item list"
  stock_movements :: "stock_movement list"

datatype py_error = ZeroDivisionError

subsection \<open>Python built-ins used by the analyzers\<close>

text \<open>\<^verbatim>\<open>round(x)\<close>: to the nearest integer, a tie to the even neighbour.\<close>
definition py_round :: "rat \<Rightarrow> int" where
  "py_round x =
     (let f = \<lfloor>x\<rfloor>; d = x - of_int f
      in if d < 1 / 2 then f
         else if 1 / 2 < d then f + 1
         else if even f then f else f + 1)"

text \<open>\<^verbatim>\<open>round(x, n)\<close>\<close>
definition py_round_nd :: "nat \<Rightarrow> rat \<Rightarrow> rat" where
  "py_round_nd n x = of_int (py_round (x * 10 ^ n)) / 10 ^ n"

text \<open>\<^verbatim>\<open>row.category or 'N/A'\<close>: \<^verbatim>\<open>None\<close> and the empty string are both falsy.\<close>
definition category_or_na :: "string option \<Rightarrow> string" where
  "category_or_na c = (case c of None \<Rightarrow> ''N/A'' | Some s \<Rightarrow> if s = [] then ''N/A'' else s)"

text \<open>The rows of \<^verbatim>\<open>SaleOrderItem JOIN SaleOrder\<close> for one product, with the filter
  \<^verbatim>\<open>sale_date >= cutoff AND status == 'PAID'\<close> that most analyzers share.\<close>
definition paid_sales_since :: "database \<Rightarrow> py_date \<Rightarrow> int \<Rightarrow> (sale_order_item \<times> sale_order) list" where
  "paid_sales_since db cutoff pid =
     [(i, s). i \<leftarrow> sale_order_items db, soi_product_id i = pid,
              s \<leftarrow> sale_orders db, so_id s = soi_sale_order_id i,
              cutoff \<le> sale_date s, so_status s = ''PAID'']"

section \<open>ABC classifier (\<^verbatim>\<open>tools/abc_analysis.py\<close>)\<close>

record abc_product =
  ap_product_id :: int
  ap_sku :: string
  ap_name :: string
  ap_category :: string
  ap_metric_value :: rat
  ap_total_revenue :: rat
  ap_total_quantity :: rat

record abc_row =
  ar_product_id :: int
  ar_sku :: string
  ar_name :: string
  ar_category :: string
  ar_metric_value :: rat
  ar_total_revenue :: rat
  ar_total_quantity :: rat
  percentage_of_total :: rat
  cumulative_percentage :: rat
  abc_class :: string

text \<open>The date range: 7, 30 or 90 days back, and \<^verbatim>\<open>datetime.min\<close> for any other
  period string.\<close>
definition abc_cutoff_date :: "py_datetime \<Rightarrow> string \<Rightarrow> py_datetime" where
  "abc_cutoff_date now period =
     (if period = ''week'' then minus_days now 7
      else if period = ''month'' then minus_days now 30
      else if period = ''quarter'' then minus_days now 90
      else 0)"

text \<open>One entry of \<^verbatim>\<open>products_list\<close> from one group of the query.\<close>
definition abc_product_of :: "string \<Rightarrow> product \<Rightarrow> (sale_order_item \<times> sale_order) list \<Rightarrow> abc_product" where
  "abc_product_of metric p rows =
     (let total_revenue = (\<Sum>(i, s)\<leftarrow>rows. soi_quantity i * soi_unit_price i);
          total_quantity = (\<Sum>(i, s)\<leftarrow>rows. soi_quantity i);
          metric_value =
            (if metric = ''revenue'' then total_revenue
             else if metric = ''profit'' then total_revenue - total_quantity * cost_price p
             else total_quantity)
      in \<lparr>ap_product_id = p_id p, ap_sku = p_sku p, ap_name = p_name p,
          ap_category = category_or_na (p_category p),
          ap_metric_value = metric_value,
          ap_total_revenue = total_revenue, ap_total_quantity = total_quantity\<rparr>)"

text \<open>The grouped query: one group for each product with at least one joined row.\<close>
definition abc_products_list :: "database \<Rightarrow> py_datetime \<Rightarrow> string \<Rightarrow> string \<Rightarrow> abc_product list" where
  "abc_products_list db now period metric =
     [abc_product_of metric p (paid_sales_since db (date_of (abc_cutoff_date now period)) (p_id p)).
        p \<leftarrow> products db,
        paid_sales_since db (date_of (abc_cutoff_date now period)) (p_id p) \<noteq> []]"

text \<open>The classification loop; \<open>cumulative\<close> is the running total before the product.\<close>
fun abc_classify :: "rat \<Rightarrow> rat \<Rightarrow> abc_product list \<Rightarrow> abc_row list" where
  "abc_classify total_metric cumulative [] = []"
| "abc_classify total_metric cumulative (p # ps) =
     (let percentage = (if 0 < total_metric then ap_metric_value p / total_metric * 100 else 0);
          cumulative' = cumulative + percentage;
          cls = (if cumulative' \<le> 80 then ''A''
                 else if cumulative' \<le> 95 then ''B''
                 else ''C'')
      in \<lparr>ar_product_id = ap_product_id p, ar_sku = ap_sku p, ar_name = ap_name p,
          ar_category = ap_category p,
          ar_metric_value = py_round_nd 2 (ap_metric_value p),
          ar_total_revenue = py_round_nd 2 (ap_total_revenue p),
          ar_total_quantity = py_round_nd 2 (ap_total_quantity p),
          percentage_of_total = py_round_nd 2 percentage,
          cumulative_percentage = py_round_nd 2 cumulative',
          abc_class = cls\<rparr>
         # abc_classify total_metric cumulative' ps)"

text \<open>Ranking (a stable descending sort on the metric), the total, and the loop.\<close>
definition abc_classification :: "abc_product list \<Rightarrow> abc_row list" where
  "abc_classification products_list =
     (let ranked = sort_key (\<lambda>x. - ap_metric_value x) products_list;
          total_metric = sum_list (map ap_metric_value ranked)
      in abc_classify total_metric 0 ranked)"

text \<open>The \<^verbatim>\<open>'classification'\<close> entry of the result of \<^verbatim>\<open>get_abc_analysis\<close>
  (empty when the query returns no group); the summary and the fixed recommendation texts
  are listings derived from it.\<close>
definition get_abc_analysis :: "database \<Rightarrow> py_datetime \<Rightarrow> string \<Rightarrow> string \<Rightarrow> abc_row list" where
  "get_abc_analysis db now period metric =
     abc_classification (abc_products_list db now period metric)"

section \<open>Shared query fragments\<close>

text \<open>A \<^verbatim>\<open>for\<close> loop whose body raises, skips the item (\<^verbatim>\<open>continue\<close>) or appends
  one entry to the result list. The first exception ends the whole call.\<close>
fun py_for_collect :: "('a \<Rightarrow> py_error + 'b option) \<Rightarrow> 'a list \<Rightarrow> py_error + 'b list" where
  "py_for_collect body [] = Inr []"
| "py_for_collect body (x # xs) =
     (case body x of
        Inl e \<Rightarrow> Inl e
      | Inr y \<Rightarrow>
          (case py_for_collect body xs of
             Inl e \<Rightarrow> Inl e
           | Inr ys \<Rightarrow> Inr (case y of None \<Rightarrow> ys | Some r \<Rightarrow> r # ys)))"

text \<open>\<^verbatim>\<open>int(x)\<close> on a float: truncation towards zero.\<close>
definition py_int :: "rat \<Rightarrow> int" where
  "py_int x = (if 0 \<le> x then \<lfloor>x\<rfloor> else \<lceil>x\<rceil>)"

text \<open>\<^verbatim>\<open>float(func.sum(SaleOrderItem.quantity) or 0)\<close> over the PAID sales of a product
  since the cut-off (an empty sum is \<^verbatim>\<open>None\<close>, read as 0).\<close>
definition total_sold_since :: "database \<Rightarrow> py_date \<Rightarrow> int \<Rightarrow> rat" where
  "total_sold_since db cutoff pid = (\<Sum>(i, s)\<leftarrow>paid_sales_since db cutoff pid. soi_quantity i)"

text \<open>The rows of \<^verbatim>\<open>PurchaseOrder JOIN PurchaseOrderItem\<close> for one product with
  \<^verbatim>\<open>status == 'PENDING'\<close>.\<close>
definition pending_order_rows :: "database \<Rightarrow> int \<Rightarrow> (purchase_order \<times> purchase_order_item) list" where
  "pending_order_rows db pid =
     [(po, it). po \<leftarrow> purchase_orders db, po_status po = ''PENDING'',
                it \<leftarrow> purchase_order_items db, poi_purchase_order_id it = po_id po,
                poi_product_id it = pid]"

section \<open>Stock rupture (\<^verbatim>\<open>tools/stock_analysis.py\<close>)\<close>

record rupture_row =
  rr_product_id :: int
  rr_sku :: string
  rr_name :: string
  rr_category :: string
  rr_current_stock :: rat
  recent_sales_count :: nat
  rr_last_sale_date :: "py_date option"
  total_quantity_sold :: rat
  estimated_daily_demand :: rat
  days_out_of_stock :: int
  lost_revenue_estimate :: rat

text \<open>The grouped query: products with \<^verbatim>\<open>current_stock <= 0\<close> and at least one PAID sale
  since the cut-off, most sold first.\<close>
definition rupture_query :: "database \<Rightarrow> py_date \<Rightarrow> product list" where
  "rupture_query db cutoff =
     sort_key (\<lambda>p. - total_sold_since db cutoff (p_id p))
       [p \<leftarrow> products db. current_stock p \<le> 0 \<and> paid_sales_since db cutoff (p_id p) \<noteq> []]"

text \<open>\<^verbatim>\<open>.filter(product_id == id, stock_after == 0).order_by(movement_date.desc()).first()\<close>\<close>
definition last_outbound :: "database \<Rightarrow> int \<Rightarrow> stock_movement option" where
  "last_outbound db pid =
     (case sort_key (\<lambda>m. - movement_date m)
             [m \<leftarrow> stock_movements db. sm_product_id m = pid \<and> stock_after m = 0] of
        [] \<Rightarrow> None
      | m # ms \<Rightarrow> Some m)"

definition rupture_entry :: "database \<Rightarrow> py_datetime \<Rightarrow> int \<Rightarrow> product \<Rightarrow> py_error + rupture_row option" where
  "rupture_entry db now days_lookback p =
     (let cutoff = date_of (minus_days now days_lookback);
          rows = paid_sales_since db cutoff (p_id p);
          total_sold = total_sold_since db cutoff (p_id p)
      in if days_lookback = 0 then Inl ZeroDivisionError
         else
           let daily_demand = total_sold / of_int days_lookback;
               days_out = (case last_outbound db (p_id p) of
                             None \<Rightarrow> 0
                           | Some m \<Rightarrow> delta_days now (movement_date m));
               lost_revenue = of_int days_out * daily_demand * sale_price p
           in Inr (Some
                \<lparr>rr_product_id = p_id p, rr_sku = p_sku p, rr_name = p_name p,
                 rr_category = category_or_na (p_category p),
                 rr_current_stock = current_stock p,
                 recent_sales_count = length (remdups (map (\<lambda>(i, s). so_id s) rows)),
                 rr_last_sale_date = Some (Max (set (map (\<lambda>(i, s). sale_date s) rows))),
                 total_quantity_sold = total_sold,
                 estimated_daily_demand = py_round_nd 2 daily_demand,
                 days_out_of_stock = days_out,
                 lost_revenue_estimate = py_round_nd 2 lost_revenue\<rparr>))"

definition detect_stock_rupture :: "database \<Rightarrow> py_datetime \<Rightarrow> int \<Rightarrow> py_error + rupture_row list" where
  "detect_stock_rupture db now days_lookback =
     py_for_collect (rupture_entry db now days_lookback)
       (rupture_query db (date_of (minus_days now days_lookback)))"

section \<open>Stockout risk (\<^verbatim>\<open>tools/stockout_risk.py\<close>)\<close>

record pending_order =
  pd_order_id :: int
  pd_order_number :: string
  pd_order_date :: py_date
  pd_quantity :: rat
  pd_unit_price :: rat

record pending_orders_info =
  pi_count :: nat
  pi_total_quantity :: rat
  is_sufficient :: bool
  oldest_order_days :: "int option"
  is_delayed :: bool
  pi_orders :: "pending_order list"

record risk_row =
  rk_product_id :: int
  rk_sku :: string
  rk_name :: string
  rk_category :: string
  rk_current_stock :: rat
  rk_avg_daily_sales :: rat
  rk_days_until_stockout :: rat
  rk_forecasted_demand :: rat
  rk_pending_orders :: pending_orders_info
  gap_quantity :: rat
  risk_level :: string
  rk_recommendation :: string
  potential_lost_revenue :: rat
  unit_sale_price :: rat
  rk_unit_cost :: rat

text \<open>The block under \<^verbatim>\<open>=== CHECK PENDING PURCHASE ORDERS ===\<close>: the defaults, filled
  in only when the query returns a row.\<close>
definition pending_info :: "py_datetime \<Rightarrow> rat \<Rightarrow> rat \<Rightarrow> (purchase_order \<times> purchase_order_item) list \<Rightarrow> pending_orders_info" where
  "pending_info now forecasted_demand cur_stock rows =
     (if rows = [] then
        \<lparr>pi_count = 0, pi_total_quantity = 0, is_sufficient = False,
         oldest_order_days = None, is_delayed = False, pi_orders = []\<rparr>
      else
        let total_quantity = (\<Sum>(po, it)\<leftarrow>rows. poi_quantity it);
            oldest_order_date = Min (set (map (\<lambda>(po, it). order_date po) rows));
            days = date_of now - oldest_order_date;
            total_needed = forecasted_demand - cur_stock
        in \<lparr>pi_count = length rows, pi_total_quantity = total_quantity,
            is_sufficient = (total_needed \<le> total_quantity),
            oldest_order_days = Some days, is_delayed = (7 < days),
            pi_orders = map (\<lambda>(po, it).
              \<lparr>pd_order_id = po_id po, pd_order_number = po_order_number po,
               pd_order_date = order_date po, pd_quantity = poi_quantity it,
               pd_unit_price = poi_unit_price it\<rparr>) rows\<rparr>)"

text \<open>The \<^verbatim>\<open>if/elif\<close> chain under \<^verbatim>\<open># Determine risk level\<close>.\<close>
definition determine_risk_level :: "rat \<Rightarrow> pending_orders_info \<Rightarrow> string" where
  "determine_risk_level days_until_stockout info =
     (if days_until_stockout \<le> 3 \<and> \<not> is_sufficient info then ''CRITICAL''
      else if days_until_stockout \<le> 3 \<or> (is_delayed info \<and> \<not> is_sufficient info) then ''HIGH''
      else if \<not> is_sufficient info then ''MEDIUM''
      else ''LOW'')"

text \<open>The leading label of the recommendation text; the formatted quantities after it are
  not part of the model.\<close>
definition risk_recommendation :: "pending_orders_info \<Rightarrow> string" where
  "risk_recommendation info =
     (if pi_count info = 0 then ''URGENT''
      else if \<not> is_sufficient info then ''ORDER MORE''
      else if is_delayed info then ''FOLLOW UP''
      else ''MONITOR'')"

definition risk_entry :: "database \<Rightarrow> py_datetime \<Rightarrow> int \<Rightarrow> int \<Rightarrow> int \<Rightarrow> product \<Rightarrow> py_error + risk_row option" where
  "risk_entry db now days_forecast days_history min_days_threshold p =
     (let total_sold = total_sold_since db (date_of (minus_days now days_history)) (p_id p)
      in if total_sold = 0 then Inr None
         else if days_history = 0 then Inl ZeroDivisionError
         else
           let avg_daily_sales = total_sold / of_int days_history;
               cur_stock = current_stock p
           in if \<not> 0 < avg_daily_sales then Inr None
              else
                let days_until_stockout = cur_stock / avg_daily_sales
                in if of_int min_days_threshold < days_until_stockout then Inr None
                   else
                     let forecasted_demand = avg_daily_sales * of_int days_forecast;
                         info = pending_info now forecasted_demand cur_stock
                                  (pending_order_rows db (p_id p));
                         total_available = cur_stock + pi_total_quantity info;
                         gap = max 0 (forecasted_demand - total_available);
                         daily_revenue = avg_daily_sales * sale_price p;
                         days_of_potential_loss = max 0 (of_int days_forecast - days_until_stockout)
                     in Inr (Some
                          \<lparr>rk_product_id = p_id p, rk_sku = p_sku p, rk_name = p_name p,
                           rk_category = category_or_na (p_category p),
                           rk_current_stock = py_round_nd 2 cur_stock,
                           rk_avg_daily_sales = py_round_nd 2 avg_daily_sales,
                           rk_days_until_stockout = py_round_nd 1 days_until_stockout,
                           rk_forecasted_demand = py_round_nd 2 forecasted_demand,
                           rk_pending_orders = info,
                           gap_quantity = py_round_nd 2 gap,
                           risk_level = determine_risk_level days_until_stockout info,
                           rk_recommendation = risk_recommendation info,
                           potential_lost_revenue = py_round_nd 2 (daily_revenue * days_of_potential_loss),
                           unit_sale_price = sale_price p,
                           rk_unit_cost = cost_price p\<rparr>))"

text \<open>\<^verbatim>\<open>risk_order[...]\<close>; the four labels are the only ones a row carries.\<close>
definition risk_order :: "string \<Rightarrow> nat" where
  "risk_order l = (if l = ''CRITICAL'' then 0 else if l = ''HIGH'' then 1
                   else if l = ''MEDIUM'' then 2 else 3)"

definition detect_imminent_stockout_risk ::
    "database \<Rightarrow> py_datetime \<Rightarrow> int \<Rightarrow> int \<Rightarrow> int \<Rightarrow> py_error + risk_row list" where
  "detect_imminent_stockout_risk db now days_forecast days_history min_days_threshold =
     (case py_for_collect (risk_entry db now days_forecast days_history min_days_threshold)
             [p \<leftarrow> products db. is_active p \<and> 0 < current_stock p] of
        Inl e \<Rightarrow> Inl e
      | Inr at_risk_products \<Rightarrow>
          Inr (sort_key (\<lambda>x. (risk_order (risk_level x), rk_days_until_stockout x)) at_risk_products))"

text \<open>The classification as the specification words it: four rules over the days until
  stock-out, whether the oldest pending order is delayed, and whether the pending orders are
  sufficient, tried in order.\<close>
definition risk_classification :: "rat \<Rightarrow> bool \<Rightarrow> bool \<Rightarrow> string" where
  "risk_classification days_until_stockout delayed sufficient =
     (if days_until_stockout \<le> 3 \<and> \<not> sufficient then ''CRITICAL''
      else if days_until_stockout \<le> 3 \<or> (delayed \<and> \<not> sufficient) then ''HIGH''
      else if \<not> sufficient then ''MEDIUM''
      else ''LOW'')"

section \<open>Purchase suggestions (\<^verbatim>\<open>tools/purchase_suggestions.py\<close>)\<close>

record suggestion_pending =
  has_pending :: bool
  sp_total_quantity :: rat
  order_count :: nat
  sp_is_sufficient :: bool

record suggestion =
  sg_product_id :: int
  sg_sku :: string
  sg_name :: string
  sg_category :: string
  sg_current_stock :: rat
  sg_avg_daily_sales :: rat
  sg_forecasted_demand :: rat
  sg_stock_needed :: rat
  suggested_quantity :: int
  sg_unit_cost :: rat
  order_value :: rat
  priority :: string
  sg_last_sale_date :: "py_date option"
  sg_days_until_stockout :: "int option"
  sg_pending_orders :: suggestion_pending

text \<open>\<^verbatim>\<open>stock_needed = forecasted_demand - current_stock\<close>, for a non-zero history
  length.\<close>
definition stock_needed :: "database \<Rightarrow> py_datetime \<Rightarrow> int \<Rightarrow> int \<Rightarrow> product \<Rightarrow> rat" where
  "stock_needed db now days_forecast days_history p =
     total_sold_since db (date_of (minus_days now days_history)) (p_id p) / of_int days_history
       * of_int days_forecast - current_stock p"

text \<open>The block under \<^verbatim>\<open># Round to reasonable quantity\<close>.\<close>
definition round_quantity :: "rat \<Rightarrow> int" where
  "round_quantity q =
     (if q < 10 then py_round q
      else if q < 100 then py_round (q / 5) * 5
      else py_round (q / 10) * 10)"

text \<open>Buffer, rounding and the minimum of one unit.\<close>
definition size_order :: "rat \<Rightarrow> int" where
  "size_order needed =
     (let safety_buffer = 12 / 10;
          q = round_quantity (needed * safety_buffer)
      in if q < 1 then 1 else q)"

definition suggestion_priority :: "int \<Rightarrow> bool \<Rightarrow> string" where
  "suggestion_priority days_until_stockout sufficient =
     (if days_until_stockout \<le> 7 \<and> \<not> sufficient then ''HIGH''
      else if days_until_stockout \<le> 14 \<and> \<not> sufficient then ''MEDIUM''
      else if \<not> sufficient then ''LOW''
      else ''LOW'')"

definition suggestion_entry ::
    "database \<Rightarrow> py_datetime \<Rightarrow> int \<Rightarrow> int \<Rightarrow> rat \<Rightarrow> product \<Rightarrow> py_error + suggestion option" where
  "suggestion_entry db now days_forecast days_history min_order_value p =
     (let rows = paid_sales_since db (date_of (minus_days now days_history)) (p_id p);
          total_sold = total_sold_since db (date_of (minus_days now days_history)) (p_id p)
      in if total_sold = 0 then Inr None
         else if days_history = 0 then Inl ZeroDivisionError
         else
           let avg_daily_sales = total_sold / of_int days_history;
               forecasted_demand = avg_daily_sales * of_int days_forecast;
               cur_stock = current_stock p;
               needed = stock_needed db now days_forecast days_history p
           in if needed \<le> 0 then Inr None
              else
                let qty = size_order needed;
                    unit_cost = cost_price p;
                    value = of_int qty * unit_cost
                in if value < min_order_value then Inr None
                   else
                     let days_until_stockout =
                           (if 0 < avg_daily_sales then py_int (cur_stock / avg_daily_sales) else 999);
                         pending = pending_order_rows db (p_id p);
                         pending_quantity = (\<Sum>(po, it)\<leftarrow>pending. poi_quantity it);
                         pending_count = length pending;
                         sufficient = (forecasted_demand \<le> cur_stock + pending_quantity)
                     in Inr (Some
                          \<lparr>sg_product_id = p_id p, sg_sku = p_sku p, sg_name = p_name p,
                           sg_category = category_or_na (p_category p),
                           sg_current_stock = cur_stock,
                           sg_avg_daily_sales = py_round_nd 2 avg_daily_sales,
                           sg_forecasted_demand = py_round_nd 2 forecasted_demand,
                           sg_stock_needed = py_round_nd 2 needed,
                           suggested_quantity = qty,
                           sg_unit_cost = unit_cost,
                           order_value = py_round_nd 2 value,
                           priority = suggestion_priority days_until_stockout sufficient,
                           sg_last_sale_date = Some (Max (set (map (\<lambda>(i, s). sale_date s) rows))),
                           sg_days_until_stockout =
                             (if days_until_stockout < 999 then Some days_until_stockout else None),
                           sg_pending_orders =
                             \<lparr>has_pending = (0 < pending_count),
                              sp_total_quantity = pending_quantity,
                              order_count = pending_count,
                              sp_is_sufficient = sufficient\<rparr>\<rparr>))"

definition priority_order :: "string \<Rightarrow> nat" where
  "priority_order l = (if l = ''HIGH'' then 0 else if l = ''MEDIUM'' then 1 else 2)"

definition suggest_purchase_order ::
    "database \<Rightarrow> py_datetime \<Rightarrow> int \<Rightarrow> int \<Rightarrow> rat \<Rightarrow> py_error + suggestion list" where
  "suggest_purchase_order db now days_forecast days_history min_order_value =
     (case py_for_collect (suggestion_entry db now days_forecast days_history min_order_value)
             [p \<leftarrow> products db. is_active p] of
        Inl e \<Rightarrow> Inl e
      | Inr suggestions \<Rightarrow>
          Inr (sort_key (\<lambda>x. (priority_order (priority x), - order_value x)) suggestions))"

section \<open>Loss detection (\<^verbatim>\<open>tools/loss_detection.py\<close>)\<close>

record loss_row =
  ls_product_id :: int
  ls_sku :: string
  ls_name :: string
  ls_category :: string
  ls_current_stock :: rat
  ls_expected_stock :: rat
  discrepancy :: rat
  discrepancy_percentage :: rat
  estimated_loss_value :: rat
  last_movement_date :: py_datetime
  loss_movements :: nat
  severity :: string

text \<open>All movements of a product, oldest first.\<close>
definition product_movements :: "database \<Rightarrow> int \<Rightarrow> stock_movement list" where
  "product_movements db pid =
     sort_key movement_date [m \<leftarrow> stock_movements db. sm_product_id m = pid]"

text \<open>The running sum of the signed quantities.\<close>
definition expected_stock :: "database \<Rightarrow> product \<Rightarrow> rat" where
  "expected_stock db p = (\<Sum>m\<leftarrow>product_movements db (p_id p). sm_quantity m)"

text \<open>\<^verbatim>\<open>discrepancy_pct\<close>, with the guard against a zero denominator.\<close>
definition discrepancy_pct :: "database \<Rightarrow> product \<Rightarrow> rat" where
  "discrepancy_pct db p =
     (let expected = expected_stock db p;
          disc = expected - current_stock p
      in if expected \<noteq> 0 then \<bar>disc / expected * 100\<bar> else 0)"

definition loss_severity :: "rat \<Rightarrow> string" where
  "loss_severity pct =
     (if 20 < pct then ''CRITICAL'' else if 10 < pct then ''HIGH'' else ''MEDIUM'')"

definition loss_entry :: "database \<Rightarrow> rat \<Rightarrow> product \<Rightarrow> loss_row option" where
  "loss_entry db tolerance_percentage p =
     (let movements = product_movements db (p_id p)
      in if movements = [] then None
         else
           let expected = expected_stock db p;
               actual_stock = current_stock p;
               disc = expected - actual_stock;
               pct = discrepancy_pct db p
           in if pct \<le> tolerance_percentage then None
              else Some
                \<lparr>ls_product_id = p_id p, ls_sku = p_sku p, ls_name = p_name p,
                 ls_category = category_or_na (p_category p),
                 ls_current_stock = actual_stock,
                 ls_expected_stock = expected,
                 discrepancy = disc,
                 discrepancy_percentage = py_round_nd 2 pct,
                 estimated_loss_value = py_round_nd 2 \<bar>disc * cost_price p\<bar>,
                 last_movement_date = movement_date (last movements),
                 loss_movements = length [m \<leftarrow> movements. movement_type m = ''LOSS''],
                 severity = loss_severity pct\<rparr>)"

definition severity_order :: "string \<Rightarrow> nat" where
  "severity_order l = (if l = ''CRITICAL'' then 0 else if l = ''HIGH'' then 1 else 2)"

definition detect_stock_losses :: "database \<Rightarrow> rat \<Rightarrow> loss_row list" where
  "detect_stock_losses db tolerance_percentage =
     sort_key (\<lambda>x. (severity_order (severity x), - estimated_loss_value x))
       (List.map_filter (loss_entry db tolerance_percentage) [p \<leftarrow> products db. is_active p])"

section \<open>Availability issues (\<^verbatim>\<open>tools/availability_analysis.py\<close>)\<close>

record availability_row =
  av_product_id :: int
  av_sku :: string
  av_name :: string
  av_category :: string
  stockout_events :: nat
  total_days_out :: int
  availability_rate :: rat
  lost_sales_count :: int
  current_status :: string
  issue_severity :: string

text \<open>\<^verbatim>\<open>products_with_sales\<close>: the distinct ids of products joined to a sale order
  item of a sale order dated on or after the cut-off. The query has no filter on the status
  of the sale order.\<close>
definition products_with_sales :: "database \<Rightarrow> py_date \<Rightarrow> int list" where
  "products_with_sales db cutoff =
     remdups [p_id p. p \<leftarrow> products db, i \<leftarrow> sale_order_items db, soi_product_id i = p_id p,
                      s \<leftarrow> sale_orders db, so_id s = soi_sale_order_id i, cutoff \<le> sale_date s]"

text \<open>\<^verbatim>\<open>session.query(Product).filter(Product.id == product_id).first()\<close>\<close>
definition find_product :: "database \<Rightarrow> int \<Rightarrow> product option" where
  "find_product db pid = List.find (\<lambda>p. p_id p = pid) (products db)"

definition stockout_movements :: "database \<Rightarrow> py_datetime \<Rightarrow> int \<Rightarrow> stock_movement list" where
  "stockout_movements db cutoff pid =
     sort_key movement_date
       [m \<leftarrow> stock_movements db. sm_product_id m = pid \<and> stock_after m = 0 \<and> cutoff \<le> movement_date m]"

text \<open>The length in days of one stock-out: up to the next movement that leaves stock, or
  up to now.\<close>
definition stockout_days :: "database \<Rightarrow> py_datetime \<Rightarrow> int \<Rightarrow> stock_movement \<Rightarrow> int" where
  "stockout_days db now pid stockout =
     (case sort_key movement_date
             [m \<leftarrow> stock_movements db. sm_product_id m = pid \<and>
                movement_date stockout < movement_date m \<and> 0 < stock_after m] of
        next_stock_in # ms \<Rightarrow> delta_days (movement_date next_stock_in) (movement_date stockout)
      | [] \<Rightarrow> delta_days now (movement_date stockout))"

definition availability_severity :: "rat \<Rightarrow> string" where
  "availability_severity rate =
     (if rate < 80 then ''CRITICAL'' else if rate < 90 then ''HIGH'' else ''MEDIUM'')"

definition availability_entry :: "database \<Rightarrow> py_datetime \<Rightarrow> int \<Rightarrow> int \<Rightarrow> availability_row option" where
  "availability_entry db now days_period pid =
     (case find_product db pid of
        None \<Rightarrow> None
      | Some p \<Rightarrow>
          let cutoff = minus_days now days_period;
              stockouts = stockout_movements db cutoff pid
          in if stockouts = [] then None
             else
               let days_out = (\<Sum>m\<leftarrow>stockouts. stockout_days db now pid m);
                   rate = (if 0 < days_period
                           then of_int (days_period - days_out) / of_int days_period * 100 else 0);
                   total_sales = total_sold_since db (date_of cutoff) pid;
                   days_available = days_period - days_out;
                   avg_daily_sales = (if 0 < days_available then total_sales / of_int days_available else 0)
               in Some
                    \<lparr>av_product_id = p_id p, av_sku = p_sku p, av_name = p_name p,
                     av_category = category_or_na (p_category p),
                     stockout_events = length stockouts,
                     total_days_out = days_out,
                     availability_rate = py_round_nd 1 rate,
                     lost_sales_count = py_int (avg_daily_sales * of_int days_out),
                     current_status = (if 0 < current_stock p then ''IN_STOCK'' else ''OUT_OF_STOCK''),
                     issue_severity = availability_severity rate\<rparr>)"

definition detect_availability_issues :: "database \<Rightarrow> py_datetime \<Rightarrow> int \<Rightarrow> availability_row list" where
  "detect_availability_issues db now days_period =
     sort_key (\<lambda>x. (severity_order (issue_severity x), - lost_sales_count x))
       (List.map_filter (availability_entry db now days_period)
          (products_with_sales db (date_of (minus_days now days_period))))"

section \<open>Slow-moving stock and recorded losses, as the aggregator reads them\<close>

record slow_row =
  sl_product_id :: int
  sl_name :: string
  stock_value :: rat
  days_without_sale :: "int option"
  sl_recommendation :: string

text \<open>The date of the last PAID sale of a product, if it was ever sold.\<close>
definition last_sale_date :: "database \<Rightarrow> int \<Rightarrow> py_date option" where
  "last_sale_date db pid =
     (case [sale_date s. s \<leftarrow> sale_orders db, so_status s = ''PAID'',
                         i \<leftarrow> sale_order_items db, soi_sale_order_id i = so_id s,
                         soi_product_id i = pid] of
        [] \<Rightarrow> None
      | d # ds \<Rightarrow> Some (Max (set (d # ds))))"

text \<open>The leading label of the recommendation text of \<^verbatim>\<open>analyze_slow_moving_stock\<close>.\<close>
definition slow_recommendation :: "int \<Rightarrow> string" where
  "slow_recommendation days =
     (if 90 < days then ''URGENT'' else if 60 < days then ''IMPORTANT'' else ''MONITOR'')"

definition slow_entry :: "database \<Rightarrow> py_datetime \<Rightarrow> int \<Rightarrow> product \<Rightarrow> slow_row option" where
  "slow_entry db now days_threshold p =
     (let days = (case last_sale_date db (p_id p) of
                    Some d \<Rightarrow> date_of now - d
                  | None \<Rightarrow> 9999)
      in if days < days_threshold then None
         else Some
           \<lparr>sl_product_id = p_id p, sl_name = p_name p,
            stock_value = py_round_nd 2 (current_stock p * cost_price p),
            days_without_sale = (if days < 9999 then Some days else None),
            sl_recommendation = slow_recommendation days\<rparr>)"

definition analyze_slow_moving_stock :: "database \<Rightarrow> py_datetime \<Rightarrow> int \<Rightarrow> slow_row list" where
  "analyze_slow_moving_stock db now days_threshold =
     sort_key (\<lambda>x. - stock_value x)
       (List.map_filter (slow_entry db now days_threshold)
          [p \<leftarrow> products db. 0 < current_stock p])"

record explicit_loss =
  el_product_id :: int
  quantity_lost :: rat
  loss_value :: rat
  days_ago :: int

definition get_explicit_losses :: "database \<Rightarrow> py_datetime \<Rightarrow> int \<Rightarrow> explicit_loss list" where
  "get_explicit_losses db now days_period =
     map (\<lambda>(m, p).
            \<lparr>el_product_id = sm_product_id m,
             quantity_lost = \<bar>sm_quantity m\<bar>,
             loss_value = py_round_nd 2
               (case unit_cost m of None \<Rightarrow> 0 | Some c \<Rightarrow> if c = 0 then 0 else \<bar>sm_quantity m\<bar> * c),
             days_ago = delta_days now (movement_date m)\<rparr>)
       (sort_key (\<lambda>(m, p). - movement_date m)
          [(m, p). m \<leftarrow> stock_movements db, p \<leftarrow> products db, sm_product_id m = p_id p,
                   movement_type m = ''LOSS'', minus_days now days_period \<le> movement_date m])"

section \<open>Alert aggregator (\<^verbatim>\<open>tools/alerts.py\<close>)\<close>

record alert =
  alert_type :: string
  alert_severity :: string
  alert_product_id :: "int option"

record stock_alerts =
  health_score :: int
  health_status :: string
  alerts_count :: nat
  critical_alerts :: "alert list"
  warnings :: "alert list"
  recommendations :: "string list"

text \<open>Block 5 of the aggregator: products sold in the last 7 days with less than a week of
  stock left.\<close>
definition low_stock_high_demand :: "database \<Rightarrow> py_datetime \<Rightarrow> alert list" where
  "low_stock_high_demand db now =
     [\<lparr>alert_type = ''LOW_STOCK_HIGH_DEMAND'', alert_severity = ''MEDIUM'',
       alert_product_id = Some (p_id p)\<rparr>.
        p \<leftarrow> products db,
        paid_sales_since db (date_of (minus_days now 7)) (p_id p) \<noteq> [],
        let daily_demand = total_sold_since db (date_of (minus_days now 7)) (p_id p) / 7;
            days_of_stock = (if 0 < daily_demand then current_stock p / daily_demand else 999)
        in 0 < days_of_stock \<and> days_of_stock < 7 \<and> 0 < current_stock p]"

text \<open>The score and its label, lines ``Overall health score'' to the status chain.\<close>
definition compute_health_score :: "alert list \<Rightarrow> alert list \<Rightarrow> int" where
  "compute_health_score crit warn =
     max 0 (100 - int (length crit) * 15 - int (length warn) * 5)"

definition health_status_of :: "int \<Rightarrow> string" where
  "health_status_of score =
     (if 80 \<le> score then ''EXCELLENT''
      else if 60 \<le> score then ''GOOD''
      else if 40 \<le> score then ''FAIR''
      else ''POOR'')"

text \<open>The aggregator with its fixed arguments. An exception of a detector leaves the
  function.\<close>
definition get_stock_alerts :: "database \<Rightarrow> py_datetime \<Rightarrow> py_error + stock_alerts" where
  "get_stock_alerts db now =
     (case detect_imminent_stockout_risk db now 30 90 7 of
        Inl e \<Rightarrow> Inl e
      | Inr stockout_risks \<Rightarrow>
     (case detect_stock_rupture db now 14 of
        Inl e \<Rightarrow> Inl e
      | Inr ruptures \<Rightarrow>
     (case suggest_purchase_order db now 30 90 100 of
        Inl e \<Rightarrow> Inl e
      | Inr purchase_suggestions \<Rightarrow>
          let critical_risks =
                [r \<leftarrow> stockout_risks. risk_level r = ''CRITICAL'' \<or> risk_level r = ''HIGH''];
              urgent_slow =
                [s \<leftarrow> analyze_slow_moving_stock db now 60. sl_recommendation s = ''URGENT''];
              losses = detect_stock_losses db 5;
              explicit_losses = get_explicit_losses db now 30;
              high_priority = [p \<leftarrow> purchase_suggestions. priority p = ''HIGH''];
              crit =
                map (\<lambda>r. \<lparr>alert_type = ''IMMINENT_STOCKOUT'', alert_severity = risk_level r,
                           alert_product_id = Some (rk_product_id r)\<rparr>) (take 5 critical_risks)
                @ map (\<lambda>r. \<lparr>alert_type = ''STOCK_RUPTURE'', alert_severity = ''CRITICAL'',
                             alert_product_id = Some (rr_product_id r)\<rparr>) (take 5 ruptures)
                @ map (\<lambda>l. \<lparr>alert_type = ''STOCK_LOSS'', alert_severity = ''CRITICAL'',
                             alert_product_id = Some (ls_product_id l)\<rparr>) (take 3 losses);
              warn =
                map (\<lambda>s. \<lparr>alert_type = ''SLOW_MOVING'', alert_severity = ''HIGH'',
                           alert_product_id = Some (sl_product_id s)\<rparr>) (take 3 urgent_slow)
                @ low_stock_high_demand db now
                @ (if explicit_losses \<noteq> []
                   then [\<lparr>alert_type = ''RECORDED_LOSSES'', alert_severity = ''MEDIUM'',
                          alert_product_id = None\<rparr>]
                   else []);
              score = compute_health_score crit warn
          in Inr \<lparr>health_score = score,
                  health_status = health_status_of score,
                  alerts_count = length crit + length warn,
                  critical_alerts = crit,
                  warnings = warn,
                  recommendations = (if high_priority \<noteq> [] then [''PURCHASE_NEEDED''] else [])\<rparr>)))"

section \<open>Example databases\<close>

definition mk_product :: "int \<Rightarrow> rat \<Rightarrow> rat \<Rightarrow> rat \<Rightarrow> bool \<Rightarrow> product" where
  "mk_product i sp cp st act =
     \<lparr>p_id = i, p_sku = ''SKU'', p_name = ''P'', p_category = None, sale_price = sp,
      cost_price = cp, current_stock = st, min_stock = 0, is_active = act\<rparr>"

definition mk_movement :: "int \<Rightarrow> string \<Rightarrow> rat \<Rightarrow> rat \<Rightarrow> py_datetime \<Rightarrow> stock_movement" where
  "mk_movement pid ty q start t =
     \<lparr>sm_product_id = pid, movement_type = ty, sm_quantity = q, unit_cost = None,
      stock_before = start, stock_after = start + q, movement_date = t\<rparr>"

text \<open>Noon of day 1000.\<close>
definition now_demo :: py_datetime where
  "now_demo = 1000 * day_us + 43200000000"

text \<open>Five products. Product 1 has 20 units, sold 450 units in the last 90 days and has one
  PENDING order of 140 units placed two days ago. Product 2 is at zero after a sale on day
  994. Product 3 went from 2 units to -3 in one sale. Product 4 holds 80 units against a
  ledger total of 100. Product 5 holds 4 units against a ledger total of 0.\<close>
definition db_demo :: database where
  "db_demo =
     \<lparr>products =
        [mk_product 1 10 6 20 True, mk_product 2 10 4 0 True, mk_product 3 8 5 (-3) True,
         mk_product 4 9 3 80 True, mk_product 5 7 2 4 True],
      sale_orders =
        [\<lparr>so_id = 1, sale_date = 950, so_status = ''PAID''\<rparr>,
         \<lparr>so_id = 2, sale_date = 994, so_status = ''PAID''\<rparr>,
         \<lparr>so_id = 3, sale_date = 996, so_status = ''PAID''\<rparr>],
      sale_order_items =
        [\<lparr>soi_sale_order_id = 1, soi_product_id = 1, soi_quantity = 450, soi_unit_price = 10\<rparr>,
         \<lparr>soi_sale_order_id = 2, soi_product_id = 2, soi_quantity = 10, soi_unit_price = 10\<rparr>,
         \<lparr>soi_sale_order_id = 3, soi_product_id = 3, soi_quantity = 5, soi_unit_price = 8\<rparr>],
      purchase_orders =
        [\<lparr>po_id = 1, po_order_number = ''PO-1'', order_date = 998, po_status = ''PENDING''\<rparr>],
      purchase_order_items =
        [\<lparr>poi_purchase_order_id = 1, poi_product_id = 1, poi_quantity = 140, poi_unit_price = 6\<rparr>],
      stock_movements =
        [mk_movement 1 ''PURCHASE'' 470 0 (900 * day_us),
         mk_movement 1 ''SALE'' (-450) 470 (950 * day_us),
         mk_movement 2 ''PURCHASE'' 10 0 (980 * day_us),
         mk_movement 2 ''SALE'' (-10) 10 (994 * day_us + 3600000000),
         mk_movement 3 ''PURCHASE'' 2 0 (980 * day_us),
         mk_movement 3 ''SALE'' (-5) 2 (996 * day_us),
         mk_movement 4 ''PURCHASE'' 100 0 (970 * day_us),
         mk_movement 5 ''PURCHASE'' 10 0 (960 * day_us),
         mk_movement 5 ''ADJUSTMENT'' (-10) 10 (961 * day_us)]\<rparr>"

text \<open>Three products with revenues 82, 10 and 8 from one PAID sale on day 990.\<close>
definition db_abc :: database where
  "db_abc =
     \<lparr>products = [mk_product 1 82 1 5 True, mk_product 2 10 1 5 True, mk_product 3 8 1 5 True],
      sale_orders = [\<lparr>so_id = 1, sale_date = 990, so_status = ''PAID''\<rparr>],
      sale_order_items =
        [\<lparr>soi_sale_order_id = 1, soi_product_id = 1, soi_quantity = 1, soi_unit_price = 82\<rparr>,
         \<lparr>soi_sale_order_id = 1, soi_product_id = 2, soi_quantity = 1, soi_unit_price = 10\<rparr>,
         \<lparr>soi_sale_order_id = 1, soi_product_id = 3, soi_quantity = 1, soi_unit_price = 8\<rparr>],
      purchase_orders = [], purchase_order_items = [], stock_movements = []\<rparr>"

text \<open>Two products that cost 10 each; one unit of the first sold at 20 and one unit of the
  second at 5, below cost.\<close>
definition db_abc_profit :: database where
  "db_abc_profit =
     \<lparr>products = [mk_product 1 20 10 5 True, mk_product 2 5 10 5 True],
      sale_orders = [\<lparr>so_id = 1, sale_date = 990, so_status = ''PAID''\<rparr>],
      sale_order_items =
        [\<lparr>soi_sale_order_id = 1, soi_product_id = 1, soi_quantity = 1, soi_unit_price = 20\<rparr>,
         \<lparr>soi_sale_order_id = 1, soi_product_id = 2, soi_quantity = 1, soi_unit_price = 5\<rparr>],
      purchase_orders = [], purchase_order_items = [], stock_movements = []\<rparr>"

text \<open>One product whose only sale order in the period is CANCELLED, and whose stock reached
  zero on day 980 and was refilled on day 985.\<close>
definition db_cancelled :: database where
  "db_cancelled =
     \<lparr>products = [mk_product 1 10 6 10 True],
      sale_orders = [\<lparr>so_id = 1, sale_date = 990, so_status = ''CANCELLED''\<rparr>],
      sale_order_items =
        [\<lparr>soi_sale_order_id = 1, soi_product_id = 1, soi_quantity = 3, soi_unit_price = 10\<rparr>],
      purchase_orders = [], purchase_order_items = [],
      stock_movements =
        [mk_movement 1 ''PURCHASE'' 5 0 (970 * day_us),
         mk_movement 1 ''LOSS'' (-5) 5 (980 * day_us),
         mk_movement 1 ''PURCHASE'' 10 0 (985 * day_us)]\<rparr>"

section \<open>Rounding\<close>

lemma py_round_ge_floor: "\<lfloor>x\<rfloor> \<le> py_round x"
  by (simp add: py_round_def Let_def)

lemma py_round_le_floor1: "py_round x \<le> \<lfloor>x\<rfloor> + 1"
  by (simp add: py_round_def Let_def)

lemma py_round_mono: "x \<le> y \<Longrightarrow> py_round x \<le> py_round y"
proof -
  assume xy: "x \<le> y"
  have fl: "\<lfloor>x\<rfloor> \<le> \<lfloor>y\<rfloor>" using xy by (rule floor_mono)
  show ?thesis
  proof (cases "\<lfloor>x\<rfloor> < \<lfloor>y\<rfloor>")
    case True
    have "py_round x \<le> \<lfloor>x\<rfloor> + 1" by (rule py_round_le_floor1)
    also have "\<dots> \<le> \<lfloor>y\<rfloor>" using True by simp
    also have "\<dots> \<le> py_round y" by (rule py_round_ge_floor)
    finally show ?thesis .
  next
    case False
    with fl have eq: "\<lfloor>x\<rfloor> = \<lfloor>y\<rfloor>" by simp
    then have "x - of_int \<lfloor>x\<rfloor> \<le> y - of_int \<lfloor>y\<rfloor>" using xy by simp
    then show ?thesis unfolding py_round_def Let_def eq by auto
  qed
qed

lemma py_round_of_int: "py_round (of_int n) = n"
  by (simp add: py_round_def Let_def)

lemma py_round_nd_mono: "x \<le> y \<Longrightarrow> py_round_nd n x \<le> py_round_nd n y"
  unfolding py_round_nd_def
  by (intro divide_right_mono py_round_mono mult_right_mono) (simp_all add: py_round_mono)

lemma py_round_nd_100: "py_round_nd 2 100 = 100"
proof -
  have "(100::rat) * 10 ^ 2 = of_int 10000" by simp
  then have "py_round (100 * 10 ^ 2) = 10000" by (simp only: py_round_of_int)
  then show ?thesis by (simp add: py_round_nd_def)
qed

lemma py_round_nearest: "\<bar>of_int (py_round x) - x\<bar> \<le> 1 / 2"
proof -
  have a: "of_int \<lfloor>x\<rfloor> \<le> x" and b: "x < of_int \<lfloor>x\<rfloor> + 1" by linarith+
  show ?thesis unfolding py_round_def Let_def using a b by (auto simp: abs_le_iff)
qed

lemma py_round_numeral: "py_round (numeral n) = numeral n"
  using py_round_of_int[of "numeral n"] by simp

section \<open>ABC classifier: properties\<close>

lemma abc_classify_class:
  "r \<in> set (abc_classify t c ps) \<Longrightarrow> abc_class r = ''A'' \<or> abc_class r = ''B'' \<or> abc_class r = ''C''"
  by (induction ps arbitrary: c) (auto simp: Let_def split: if_splits)

lemma abc_classify_lower:
  "\<forall>p\<in>set ps. 0 \<le> ap_metric_value p \<Longrightarrow> r \<in> set (abc_classify t c ps) \<Longrightarrow>
     py_round_nd 2 c \<le> cumulative_percentage r"
proof (induction ps arbitrary: c)
  case Nil
  then show ?case by simp
next
  case (Cons p ps)
  define pc where "pc = (if 0 < t then ap_metric_value p / t * 100 else 0)"
  have pc0: "0 \<le> pc" using Cons.prems(1) by (simp add: pc_def)
  have step: "py_round_nd 2 c \<le> py_round_nd 2 (c + pc)"
    using pc0 by (intro py_round_nd_mono) simp
  from Cons.prems(2) consider "cumulative_percentage r = py_round_nd 2 (c + pc)"
    | "r \<in> set (abc_classify t (c + pc) ps)"
    by (auto simp: Let_def pc_def)
  then show ?case
  proof cases
    case 1
    then show ?thesis using step by simp
  next
    case 2
    have "py_round_nd 2 (c + pc) \<le> cumulative_percentage r"
      using Cons.IH[OF _ 2] Cons.prems(1) by simp
    then show ?thesis using step by linarith
  qed
qed

lemma abc_classify_sorted:
  "\<forall>p\<in>set ps. 0 \<le> ap_metric_value p \<Longrightarrow>
     sorted (map cumulative_percentage (abc_classify t c ps))"
proof (induction ps arbitrary: c)
  case Nil
  then show ?case by simp
next
  case (Cons p ps)
  define pc where "pc = (if 0 < t then ap_metric_value p / t * 100 else 0)"
  have tl: "sorted (map cumulative_percentage (abc_classify t (c + pc) ps))"
    using Cons by simp
  have hd: "\<forall>r\<in>set (abc_classify t (c + pc) ps). py_round_nd 2 (c + pc) \<le> cumulative_percentage r"
    using abc_classify_lower[of ps _ t "c + pc"] Cons.prems by simp
  show ?case using tl hd by (simp add: Let_def pc_def)
qed

lemma abc_classify_last:
  "0 < t \<Longrightarrow> ps \<noteq> [] \<Longrightarrow>
     cumulative_percentage (last (abc_classify t c ps)) =
       py_round_nd 2 (c + (\<Sum>p\<leftarrow>ps. ap_metric_value p / t * 100))"
proof (induction ps arbitrary: c)
  case Nil
  then show ?case by simp
next
  case (Cons p ps)
  show ?case
  proof (cases ps)
    case Nil
    then show ?thesis using Cons.prems by (simp add: Let_def)
  next
    case (Cons q qs)
    then have ne: "ps \<noteq> []" by simp
    then have "abc_classify t (c + ap_metric_value p / t * 100) ps \<noteq> []"
      by (cases ps) (simp_all add: Let_def)
    then show ?thesis
      using Cons.IH[OF Cons.prems(1) ne, of "c + ap_metric_value p / t * 100"] Cons.prems(1)
      by (simp add: Let_def add.assoc)
  qed
qed

lemma sum_list_map_insort_key:
  "sum_list (map f (insort_key g x xs)) = f x + sum_list (map f xs)"
  for f :: "'a \<Rightarrow> rat"
  by (induction xs) simp_all

lemma sum_list_map_sort_key:
  "sum_list (map f (sort_key g xs)) = sum_list (map f xs)"
  for f :: "'a \<Rightarrow> rat"
  by (induction xs) (simp_all add: sum_list_map_insort_key)

lemma sum_list_percent:
  "t \<noteq> 0 \<Longrightarrow> (\<Sum>p\<leftarrow>ps. f p / t * 100) = sum_list (map f ps) / t * (100::rat)"
  by (induction ps) (simp_all add: field_simps)

text \<open>
  Claim C1, as amended. When the query returns three products whose metric values are 82%,
  10% and 8% of their total, in this order, the classifier walks them in this order and the
  running totals are 82, 92 and 100: the first product is above the 80% threshold at once
  and is class B, the second is class B, the third is class C.
\<close>
theorem abc_boundary_scenario:
  assumes "0 < T"
    and "map ap_metric_value (abc_products_list db now period metric) =
           [T * 82 / 100, T * 10 / 100, T * 8 / 100]"
  shows "map cumulative_percentage (get_abc_analysis db now period metric) = [82, 92, 100] \<and>
         map abc_class (get_abc_analysis db now period metric) = [''B'', ''B'', ''C'']"
proof -
  from assms(2) obtain a b c where ps: "abc_products_list db now period metric = [a, b, c]"
    and m: "ap_metric_value a = T * 82 / 100" "ap_metric_value b = T * 10 / 100"
      "ap_metric_value c = T * 8 / 100"
    by (auto simp: map_eq_Cons_conv)
  have r: "py_round_nd 2 82 = 82" "py_round_nd 2 92 = 92" "py_round_nd 2 100 = 100"
    by (simp_all add: py_round_nd_def py_round_numeral)
  show ?thesis
    unfolding get_abc_analysis_def abc_classification_def ps
    using assms(1) by (simp add: m Let_def field_simps r)
qed

theorem abc_boundary_scenario_witness:
  "(0::rat) < 100 \<and>
   map ap_metric_value (abc_products_list db_abc now_demo ''month'' ''revenue'') =
     [100 * 82 / 100, 100 * 10 / 100, 100 * 8 / 100] \<and>
   map cumulative_percentage (get_abc_analysis db_abc now_demo ''month'' ''revenue'') = [82, 92, 100] \<and>
   map abc_class (get_abc_analysis db_abc now_demo ''month'' ''revenue'') = [''B'', ''B'', ''C'']"
proof -
  have h: "map ap_metric_value (abc_products_list db_abc now_demo ''month'' ''revenue'') =
             [100 * 82 / 100, 100 * 10 / 100, 100 * 8 / 100]"
    by code_simp
  have p: "(0::rat) < 100" by simp
  from abc_boundary_scenario[OF p h] h show ?thesis by simp
qed

theorem abc_boundary_counterexample:
  "map percentage_of_total (get_abc_analysis db_abc now_demo ''month'' ''revenue'') = [82, 10, 8] \<and>
   map abc_class (get_abc_analysis db_abc now_demo ''month'' ''revenue'') \<noteq> [''A'', ''B'', ''C'']"
  by code_simp

text \<open>
  Claim C5, as amended. Every row of the classification carries class A, B or C. When no
  product has a negative metric value, the cumulative percentages are non-decreasing in the
  returned order. When the metric values have a positive total, the classification is not
  empty and its last cumulative percentage is 100.
\<close>
theorem abc_completeness:
  "(\<forall>r\<in>set (get_abc_analysis db now period metric).
       abc_class r = ''A'' \<or> abc_class r = ''B'' \<or> abc_class r = ''C'') \<and>
   ((\<forall>p\<in>set (abc_products_list db now period metric). 0 \<le> ap_metric_value p) \<longrightarrow>
       sorted (map cumulative_percentage (get_abc_analysis db now period metric))) \<and>
   (0 < sum_list (map ap_metric_value (abc_products_list db now period metric)) \<longrightarrow>
       get_abc_analysis db now period metric \<noteq> [] \<and>
       cumulative_percentage (last (get_abc_analysis db now period metric)) = 100)"
proof (intro conjI ballI impI)
  fix r assume "r \<in> set (get_abc_analysis db now period metric)"
  then show "abc_class r = ''A'' \<or> abc_class r = ''B'' \<or> abc_class r = ''C''"
    unfolding get_abc_analysis_def abc_classification_def Let_def by (rule abc_classify_class)
next
  assume "\<forall>p\<in>set (abc_products_list db now period metric). 0 \<le> ap_metric_value p"
  then show "sorted (map cumulative_percentage (get_abc_analysis db now period metric))"
    unfolding get_abc_analysis_def abc_classification_def Let_def
    by (intro abc_classify_sorted) simp
next
  let ?ps = "abc_products_list db now period metric"
  let ?ranked = "sort_key (\<lambda>x. - ap_metric_value x) ?ps"
  let ?t = "sum_list (map ap_metric_value ?ranked)"
  assume pos: "0 < sum_list (map ap_metric_value ?ps)"
  have t: "?t = sum_list (map ap_metric_value ?ps)" by (rule sum_list_map_sort_key)
  have ne: "?ranked \<noteq> []" using pos by (cases ?ps) auto
  show "get_abc_analysis db now period metric \<noteq> []"
    using ne unfolding get_abc_analysis_def abc_classification_def Let_def
    by (cases ?ranked) (simp_all add: Let_def)
  have "cumulative_percentage (last (abc_classify ?t 0 ?ranked)) =
          py_round_nd 2 (0 + (\<Sum>p\<leftarrow>?ranked. ap_metric_value p / ?t * 100))"
    using pos ne t by (intro abc_classify_last) simp_all
  also have "(\<Sum>p\<leftarrow>?ranked. ap_metric_value p / ?t * 100) = ?t / ?t * 100"
    using pos t by (intro sum_list_percent) simp
  also have "?t / ?t * 100 = 100" using pos t by simp
  finally show "cumulative_percentage (last (get_abc_analysis db now period metric)) = 100"
    unfolding get_abc_analysis_def abc_classification_def Let_def by (simp add: py_round_nd_100)
qed

theorem abc_completeness_witness:
  "map ap_metric_value (abc_products_list db_abc now_demo ''month'' ''revenue'') = [82, 10, 8] \<and>
   0 < sum_list (map ap_metric_value (abc_products_list db_abc now_demo ''month'' ''revenue'')) \<and>
   sorted (map cumulative_percentage (get_abc_analysis db_abc now_demo ''month'' ''revenue'')) \<and>
   cumulative_percentage (last (get_abc_analysis db_abc now_demo ''month'' ''revenue'')) = 100"
proof -
  have h0: "map ap_metric_value (abc_products_list db_abc now_demo ''month'' ''revenue'') = [82, 10, 8]"
    by code_simp
  have h1: "\<forall>p\<in>set (abc_products_list db_abc now_demo ''month'' ''revenue''). 0 \<le> ap_metric_value p"
    by code_simp
  have h2: "0 < sum_list (map ap_metric_value (abc_products_list db_abc now_demo ''month'' ''revenue''))"
    by code_simp
  from abc_completeness[of db_abc now_demo "''month''" "''revenue''"] h0 h1 h2
  show ?thesis by blast
qed

theorem abc_completeness_counterexample:
  "map cumulative_percentage (get_abc_analysis db_abc_profit now_demo ''month'' ''profit'') = [200, 100] \<and>
   \<not> sorted (map cumulative_percentage (get_abc_analysis db_abc_profit now_demo ''month'' ''profit''))"
  by code_simp

section \<open>Availability issues: the sales precondition\<close>

text \<open>
  Claim C4. The claim is that a reported product had a PAID sale in the period. In
  \<open>db_cancelled\<close> the only sale order of product 1 is CANCELLED, so the product has no PAID
  sale in the 90 days before \<open>now_demo\<close>; the detector reports it all the same, because
  the query for \<^verbatim>\<open>products_with_sales\<close> does not look at the status.
\<close>
theorem availability_cancelled_sale_reported:
  "paid_sales_since db_cancelled (date_of (minus_days now_demo 90)) 1 = [] \<and>
   map av_product_id (detect_availability_issues db_cancelled now_demo 90) = [1]"
  by code_simp

section \<open>Rows collected by an iteration\<close>

lemma py_for_collect_set:
  "py_for_collect body xs = Inr ys \<Longrightarrow> set ys = {r. \<exists>x\<in>set xs. body x = Inr (Some r)}"
proof (induction xs arbitrary: ys)
  case Nil
  then show ?case by simp
next
  case (Cons x xs)
  from Cons.prems obtain y zs where bx: "body x = Inr y" and rest: "py_for_collect body xs = Inr zs"
    and ys: "ys = (case y of None \<Rightarrow> zs | Some r \<Rightarrow> r # zs)"
    by (auto split: sum.splits)
  have "set zs = {r. \<exists>x\<in>set xs. body x = Inr (Some r)}" by (rule Cons.IH[OF rest])
  then show ?case using bx ys by (cases y) auto
qed

lemma py_for_collect_total:
  "(\<And>x. x \<in> set xs \<Longrightarrow> \<exists>y. body x = Inr y) \<Longrightarrow> \<exists>ys. py_for_collect body xs = Inr ys"
proof (induction xs)
  case Nil
  then show ?case by simp
next
  case (Cons x xs)
  then obtain y where "body x = Inr y" by auto
  moreover from Cons obtain ys where "py_for_collect body xs = Inr ys" by auto
  ultimately show ?case by simp
qed

lemma rupture_entry_stock:
  "rupture_entry db now L p = Inr (Some r) \<Longrightarrow> rr_product_id r = p_id p"
  by (auto simp: rupture_entry_def Let_def split: if_splits)

lemma risk_entry_id:
  "risk_entry db now F H T p = Inr (Some r) \<Longrightarrow> rk_product_id r = p_id p"
  by (auto simp: risk_entry_def Let_def split: if_splits)

lemma rupture_rows_from:
  assumes "detect_stock_rupture db now L = Inr ruptures" and "r \<in> set ruptures"
  shows "\<exists>p\<in>set (products db). current_stock p \<le> 0 \<and> rupture_entry db now L p = Inr (Some r)"
proof -
  from assms(1) have "set ruptures =
      {r. \<exists>p\<in>set (rupture_query db (date_of (minus_days now L))). rupture_entry db now L p = Inr (Some r)}"
    unfolding detect_stock_rupture_def by (rule py_for_collect_set)
  with assms(2) obtain p where "p \<in> set (rupture_query db (date_of (minus_days now L)))"
    and "rupture_entry db now L p = Inr (Some r)" by auto
  then show ?thesis by (auto simp: rupture_query_def)
qed

lemma risk_rows_from:
  assumes "detect_imminent_stockout_risk db now F H T = Inr risks" and "r \<in> set risks"
  shows "\<exists>p\<in>set (products db). is_active p \<and> 0 < current_stock p \<and> risk_entry db now F H T p = Inr (Some r)"
proof -
  from assms(1) obtain rows where
    c: "py_for_collect (risk_entry db now F H T) [p \<leftarrow> products db. is_active p \<and> 0 < current_stock p] = Inr rows"
    and s: "risks = sort_key (\<lambda>x. (risk_order (risk_level x), rk_days_until_stockout x)) rows"
    unfolding detect_imminent_stockout_risk_def by (auto split: sum.splits)
  from assms(2) s have "r \<in> set rows" by simp
  with py_for_collect_set[OF c] show ?thesis by auto
qed

section \<open>Rupture and stockout risk never report the same product\<close>

text \<open>
  Claim C2. In one database state, with product ids unique (the primary key), no product id
  is in both the output of \<open>detect_stock_rupture\<close> and the output of
  \<open>detect_imminent_stockout_risk\<close>, whatever the arguments and the clock readings of
  the two calls: the first reports only products with \<open>current_stock \<le> 0\<close>, the second only
  products with \<open>current_stock > 0\<close>.
\<close>
theorem rupture_risk_exclusive:
  assumes "distinct (map p_id (products db))"
    and "detect_stock_rupture db now L = Inr ruptures"
    and "detect_imminent_stockout_risk db now' F H T = Inr risks"
  shows "set (map rr_product_id ruptures) \<inter> set (map rk_product_id risks) = {}"
proof (rule ccontr)
  assume "set (map rr_product_id ruptures) \<inter> set (map rk_product_id risks) \<noteq> {}"
  then obtain a b where a: "a \<in> set ruptures" and b: "b \<in> set risks"
    and eq: "rr_product_id a = rk_product_id b" by auto
  from rupture_rows_from[OF assms(2) a] obtain p where
    p: "p \<in> set (products db)" "current_stock p \<le> 0" "rr_product_id a = p_id p"
    by (auto dest: rupture_entry_stock)
  from risk_rows_from[OF assms(3) b] obtain q where
    q: "q \<in> set (products db)" "0 < current_stock q" "rk_product_id b = p_id q"
    by (auto dest: risk_entry_id)
  from p(3) q(3) eq have "p_id p = p_id q" by simp
  with assms(1) p(1) q(1) have "p = q" by (simp add: distinct_map inj_on_def)
  with p(2) q(2) show False by simp
qed

theorem rupture_risk_exclusive_witness:
  "distinct (map p_id (products db_demo)) \<and>
   (\<exists>ruptures risks.
      detect_stock_rupture db_demo now_demo 14 = Inr ruptures \<and>
      detect_imminent_stockout_risk db_demo now_demo 30 90 7 = Inr risks \<and>
      map rr_product_id ruptures = [2, 3] \<and> map rk_product_id risks = [1] \<and>
      set (map rr_product_id ruptures) \<inter> set (map rk_product_id risks) = {})"
proof -
  have d: "distinct (map p_id (products db_demo))" by code_simp
  have "map_sum id (map rr_product_id) (detect_stock_rupture db_demo now_demo 14) = Inr [2, 3]"
    by code_simp
  then obtain ruptures where r: "detect_stock_rupture db_demo now_demo 14 = Inr ruptures"
    and ri: "map rr_product_id ruptures = [2, 3]"
    by (cases "detect_stock_rupture db_demo now_demo 14") auto
  have "map_sum id (map rk_product_id) (detect_imminent_stockout_risk db_demo now_demo 30 90 7) = Inr [1]"
    by code_simp
  then obtain risks where k: "detect_imminent_stockout_risk db_demo now_demo 30 90 7 = Inr risks"
    and ki: "map rk_product_id risks = [1]"
    by (cases "detect_imminent_stockout_risk db_demo now_demo 30 90 7") auto
  have x: "set (map rr_product_id ruptures) \<inter> set (map rk_product_id risks) = {}"
    by (rule rupture_risk_exclusive[OF d r k])
  show ?thesis
  proof (intro conjI exI)
    show "distinct (map p_id (products db_demo))" by (rule d)
    show "detect_stock_rupture db_demo now_demo 14 = Inr ruptures" by (rule r)
    show "detect_imminent_stockout_risk db_demo now_demo 30 90 7 = Inr risks" by (rule k)
    show "map rr_product_id ruptures = [2, 3]" by (rule ri)
    show "map rk_product_id risks = [1]" by (rule ki)
    show "set (map rr_product_id ruptures) \<inter> set (map rk_product_id risks) = {}" by (rule x)
  qed
qed

section \<open>Stock rupture: days out of stock\<close>

lemma hd_sort_key_in: "xs \<noteq> [] \<Longrightarrow> hd (sort_key f xs) \<in> set xs"
proof -
  assume "xs \<noteq> []"
  then have "sort_key f xs \<noteq> []" by (metis length_sort length_0_conv)
  then have "hd (sort_key f xs) \<in> set (sort_key f xs)" by (rule hd_in_set)
  then show ?thesis by simp
qed

lemma hd_sort_key_least:
  assumes "x \<in> set xs"
  shows "f (hd (sort_key f xs)) \<le> f x"
proof -
  have s: "sorted (map f (sort_key f xs))" by (rule sorted_sort_key)
  from assms have x: "x \<in> set (sort_key f xs)" by simp
  then obtain y ys where e: "sort_key f xs = y # ys" by (cases "sort_key f xs") auto
  from s x show ?thesis unfolding e by auto
qed

lemma last_outbound_None:
  "[m \<leftarrow> stock_movements db. sm_product_id m = pid \<and> stock_after m = 0] = [] \<Longrightarrow>
     last_outbound db pid = None"
  by (simp add: last_outbound_def)

lemma last_outbound_Some:
  assumes "zs = [m \<leftarrow> stock_movements db. sm_product_id m = pid \<and> stock_after m = 0]"
    and "zs \<noteq> []"
  shows "\<exists>m. last_outbound db pid = Some m \<and> movement_date m = Max (set (map movement_date zs))"
proof -
  let ?s = "sort_key (\<lambda>m. - movement_date m) zs"
  from assms(2) have ne: "?s \<noteq> []" by (metis length_sort length_0_conv)
  then obtain m ms where e: "?s = m # ms" by (cases ?s) auto
  then have hd: "hd ?s = m" by simp
  have lo: "last_outbound db pid = Some m"
    unfolding last_outbound_def assms(1)[symmetric] e by simp
  have mem: "m \<in> set zs" using hd_sort_key_in[OF assms(2), of "\<lambda>m. - movement_date m"] hd by simp
  have top: "movement_date x \<le> movement_date m" if "x \<in> set zs" for x
    using hd_sort_key_least[OF that, of "\<lambda>m. - movement_date m"] hd by simp
  have "Max (set (map movement_date zs)) = movement_date m"
  proof (rule Max_eqI)
    show "finite (set (map movement_date zs))" by simp
    show "y \<le> movement_date m" if "y \<in> set (map movement_date zs)" for y
      using that top by auto
    show "movement_date m \<in> set (map movement_date zs)" using mem by simp
  qed
  with lo show ?thesis by simp
qed

lemma py_round_nd_0: "py_round_nd n 0 = 0"
  by (simp add: py_round_nd_def py_round_def)

text \<open>
  Claim C10. For every row \<open>r\<close> that \<open>detect_stock_rupture\<close> returns, let \<open>zs\<close> be the
  stock movements of the product whose \<open>stock_after\<close> is exactly 0. If there is none, then
  \<open>days_out_of_stock\<close> is 0 and so is \<open>lost_revenue_estimate\<close>, although the product is
  reported as out of stock with recent sales. Otherwise \<open>days_out_of_stock\<close> is the number
  of whole days from the latest movement date in \<open>zs\<close> to now.
\<close>
theorem rupture_days_out_of_stock:
  assumes "detect_stock_rupture db now days_lookback = Inr ruptures"
    and "r \<in> set ruptures"
    and "zs = [m \<leftarrow> stock_movements db. sm_product_id m = rr_product_id r \<and> stock_after m = 0]"
  shows "(zs = [] \<longrightarrow> days_out_of_stock r = 0 \<and> lost_revenue_estimate r = 0) \<and>
         (zs \<noteq> [] \<longrightarrow> days_out_of_stock r = delta_days now (Max (set (map movement_date zs))))"
proof -
  from rupture_rows_from[OF assms(1,2)] obtain p where
    p: "p \<in> set (products db)" and e: "rupture_entry db now days_lookback p = Inr (Some r)"
    by auto
  have id: "rr_product_id r = p_id p" using e by (rule rupture_entry_stock)
  from e have nz: "days_lookback \<noteq> 0" by (auto simp: rupture_entry_def Let_def split: if_splits)
  show ?thesis
  proof (intro conjI impI)
    assume "zs = []"
    then have "last_outbound db (p_id p) = None"
      using assms(3) id by (simp add: last_outbound_None)
    with e nz show "days_out_of_stock r = 0" "lost_revenue_estimate r = 0"
      by (auto simp: rupture_entry_def Let_def py_round_nd_0)
  next
    assume "zs \<noteq> []"
    with last_outbound_Some[where zs=zs and db=db and pid="p_id p"] assms(3) id obtain m where
      "last_outbound db (p_id p) = Some m" "movement_date m = Max (set (map movement_date zs))"
      by auto
    with e nz show "days_out_of_stock r = delta_days now (Max (set (map movement_date zs)))"
      by (auto simp: rupture_entry_def Let_def)
  qed
qed

theorem rupture_days_out_of_stock_witness:
  "\<exists>ruptures r2 r3.
     detect_stock_rupture db_demo now_demo 14 = Inr ruptures \<and> ruptures = [r2, r3] \<and>
     rr_product_id r2 = 2 \<and> rr_product_id r3 = 3 \<and>
     [m \<leftarrow> stock_movements db_demo. sm_product_id m = 3 \<and> stock_after m = 0] = [] \<and>
     days_out_of_stock r3 = 0 \<and> lost_revenue_estimate r3 = 0 \<and>
     map movement_date [m \<leftarrow> stock_movements db_demo. sm_product_id m = 2 \<and> stock_after m = 0]
       = [994 * day_us + 3600000000] \<and>
     days_out_of_stock r2 = 6"
proof -
  have "map_sum id (map rr_product_id) (detect_stock_rupture db_demo now_demo 14) = Inr [2, 3]"
    by code_simp
  then obtain ruptures where r: "detect_stock_rupture db_demo now_demo 14 = Inr ruptures"
    and ri: "map rr_product_id ruptures = [2, 3]"
    by (cases "detect_stock_rupture db_demo now_demo 14") auto
  from ri obtain r2 r3 where l: "ruptures = [r2, r3]" and i2: "rr_product_id r2 = 2"
    and i3: "rr_product_id r3 = 3" by (auto simp: map_eq_Cons_conv)
  have z3: "[m \<leftarrow> stock_movements db_demo. sm_product_id m = 3 \<and> stock_after m = 0] = []"
    by code_simp
  have z2: "map movement_date [m \<leftarrow> stock_movements db_demo. sm_product_id m = 2 \<and> stock_after m = 0]
       = [994 * day_us + 3600000000]"
    by code_simp
  have d: "delta_days now_demo (994 * day_us + 3600000000) = 6" by code_simp
  have m3: "r3 \<in> set ruptures" and m2: "r2 \<in> set ruptures" using l by simp_all
  from rupture_days_out_of_stock[OF r m3 refl] z3 i3
  have a3: "days_out_of_stock r3 = 0" "lost_revenue_estimate r3 = 0" by simp_all
  from z2 have ne: "[m \<leftarrow> stock_movements db_demo. sm_product_id m = 2 \<and> stock_after m = 0] \<noteq> []"
    by auto
  from rupture_days_out_of_stock[OF r m2 refl] i2 ne
  have "days_out_of_stock r2 =
      delta_days now_demo (Max (set (map movement_date
        [m \<leftarrow> stock_movements db_demo. sm_product_id m = 2 \<and> stock_after m = 0])))"
    by simp
  then have a2: "days_out_of_stock r2 = 6" unfolding z2 using d by simp
  show ?thesis
  proof (intro exI conjI)
    show "detect_stock_rupture db_demo now_demo 14 = Inr ruptures" by (rule r)
    show "ruptures = [r2, r3]" by (rule l)
    show "rr_product_id r2 = 2" by (rule i2)
    show "rr_product_id r3 = 3" by (rule i3)
    show "[m \<leftarrow> stock_movements db_demo. sm_product_id m = 3 \<and> stock_after m = 0] = []" by (rule z3)
    show "days_out_of_stock r3 = 0" by (rule a3)
    show "lost_revenue_estimate r3 = 0" by (rule a3)
    show "map movement_date [m \<leftarrow> stock_movements db_demo. sm_product_id m = 2 \<and> stock_after m = 0]
       = [994 * day_us + 3600000000]" by (rule z2)
    show "days_out_of_stock r2 = 6" by (rule a2)
  qed
qed

section \<open>Stockout risk: the classification\<close>

lemma risk_entry_classified:
  assumes "risk_entry db now F H T p = Inr (Some r)"
  shows "rk_product_id r = p_id p \<and> H \<noteq> 0 \<and>
     0 < total_sold_since db (date_of (minus_days now H)) (p_id p) / of_int H \<and>
     current_stock p / (total_sold_since db (date_of (minus_days now H)) (p_id p) / of_int H) \<le> of_int T \<and>
     risk_level r =
       risk_classification
         (current_stock p / (total_sold_since db (date_of (minus_days now H)) (p_id p) / of_int H))
         (is_delayed (rk_pending_orders r)) (is_sufficient (rk_pending_orders r))"
  using assms
  by (auto simp: risk_entry_def Let_def determine_risk_level_def risk_classification_def
      split: if_splits)

lemma risk_entry_never_raises:
  "H \<noteq> 0 \<Longrightarrow> \<exists>y. risk_entry db now F H T p = Inr y"
  by (simp add: risk_entry_def Let_def)

lemma detect_risk_returns:
  assumes "H \<noteq> 0"
  shows "\<exists>risks. detect_imminent_stockout_risk db now F H T = Inr risks"
proof -
  from py_for_collect_total[of "[p \<leftarrow> products db. is_active p \<and> 0 < current_stock p]"
      "risk_entry db now F H T"] risk_entry_never_raises[OF assms]
  obtain rows where "py_for_collect (risk_entry db now F H T)
      [p \<leftarrow> products db. is_active p \<and> 0 < current_stock p] = Inr rows" by blast
  then show ?thesis by (simp add: detect_imminent_stockout_risk_def)
qed

lemma risk_rows_to:
  assumes "detect_imminent_stockout_risk db now F H T = Inr risks"
    and "p \<in> set (products db)" "is_active p" "0 < current_stock p"
    and "risk_entry db now F H T p = Inr (Some r)"
  shows "r \<in> set risks"
proof -
  from assms(1) obtain rows where
    c: "py_for_collect (risk_entry db now F H T) [p \<leftarrow> products db. is_active p \<and> 0 < current_stock p] = Inr rows"
    and s: "risks = sort_key (\<lambda>x. (risk_order (risk_level x), rk_days_until_stockout x)) rows"
    unfolding detect_imminent_stockout_risk_def by (auto split: sum.splits)
  from py_for_collect_set[OF c] assms(2-5) have "r \<in> set rows" by auto
  with s show ?thesis by simp
qed

lemma risk_entry_scenario:
  assumes "current_stock p = 20" and "0 < H"
    and "total_sold_since db (date_of (minus_days now H)) (p_id p) = 5 * of_int H"
    and "pending_order_rows db (p_id p) = [(po, it)]"
    and "poi_quantity it = 140" and "order_date po = date_of now - 2"
  shows "\<exists>r. risk_entry db now 30 H 7 p = Inr (Some r) \<and> rk_product_id r = p_id p \<and>
           rk_forecasted_demand r = 150 \<and> rk_days_until_stockout r = 4 \<and>
           is_sufficient (rk_pending_orders r) \<and> \<not> is_delayed (rk_pending_orders r) \<and>
           risk_level r = ''LOW''"
proof -
  have avg: "total_sold_since db (date_of (minus_days now H)) (p_id p) / of_int H = 5"
    using assms(2,3) by simp
  have r1: "py_round_nd (Suc 0) 4 = 4" "py_round_nd 2 150 = 150"
    by (simp_all add: py_round_nd_def py_round_numeral)
  show ?thesis
    using assms(2) avg
    by (simp add: risk_entry_def Let_def assms(1,3,4,5,6) pending_info_def
        determine_risk_level_def r1)
qed

text \<open>
  Claim C3. Every row that \<open>detect_imminent_stockout_risk\<close> returns belongs to an active
  product with positive stock, and its \<open>risk_level\<close> is what the four rules of the
  specification give, tried in order, for the product's days until stock-out
  (\<open>current_stock / avg_daily_sales\<close>, before the rounding of the output field) and the
  row's \<open>is_delayed\<close> and \<open>is_sufficient\<close>. In particular, an active product with 20 units,
  average daily sales of 5 over the history and exactly one PENDING order row, of 140 units
  placed two days ago, is reported for a 30-day forecast and a threshold of 7 days with
  forecast demand 150, 4 days until stock-out, sufficient pending orders and risk level LOW.
\<close>
theorem stockout_risk_classification:
  "(\<forall>db now F H T risks r.
      detect_imminent_stockout_risk db now F H T = Inr risks \<longrightarrow> r \<in> set risks \<longrightarrow>
      (\<exists>p\<in>set (products db). is_active p \<and> 0 < current_stock p \<and> rk_product_id r = p_id p \<and>
         risk_level r =
           risk_classification
             (current_stock p / (total_sold_since db (date_of (minus_days now H)) (p_id p) / of_int H))
             (is_delayed (rk_pending_orders r)) (is_sufficient (rk_pending_orders r)))) \<and>
   (\<forall>db now H p po it.
      p \<in> set (products db) \<longrightarrow> is_active p \<longrightarrow> current_stock p = 20 \<longrightarrow> 0 < H \<longrightarrow>
      total_sold_since db (date_of (minus_days now H)) (p_id p) = 5 * of_int H \<longrightarrow>
      pending_order_rows db (p_id p) = [(po, it)] \<longrightarrow> poi_quantity it = 140 \<longrightarrow>
      order_date po = date_of now - 2 \<longrightarrow>
      (\<exists>risks r. detect_imminent_stockout_risk db now 30 H 7 = Inr risks \<and> r \<in> set risks \<and>
         rk_product_id r = p_id p \<and> rk_forecasted_demand r = 150 \<and>
         rk_days_until_stockout r = 4 \<and> is_sufficient (rk_pending_orders r) \<and>
         risk_level r = ''LOW''))"
proof (intro conjI allI impI)
  fix db now F H T risks r
  assume k: "detect_imminent_stockout_risk db now F H T = Inr risks" and r: "r \<in> set risks"
  from risk_rows_from[OF k r] obtain p where p: "p \<in> set (products db)" "is_active p"
    "0 < current_stock p" and e: "risk_entry db now F H T p = Inr (Some r)" by auto
  from risk_entry_classified[OF e] p
  show "\<exists>p\<in>set (products db). is_active p \<and> 0 < current_stock p \<and> rk_product_id r = p_id p \<and>
         risk_level r =
           risk_classification
             (current_stock p / (total_sold_since db (date_of (minus_days now H)) (p_id p) / of_int H))
             (is_delayed (rk_pending_orders r)) (is_sufficient (rk_pending_orders r))"
    by (intro bexI[of _ p]) simp_all
next
  fix db :: database and now H p po it
  assume p: "p \<in> set (products db)" "is_active p" and st: "current_stock p = 20" and H: "0 < H"
    and ts: "total_sold_since db (date_of (minus_days now H)) (p_id p) = 5 * of_int H"
    and pr: "pending_order_rows db (p_id p) = [(po, it)]" and q: "poi_quantity it = 140"
    and od: "order_date po = date_of now - 2"
  from H have "H \<noteq> 0" by simp
  from detect_risk_returns[OF this] obtain risks where
    k: "detect_imminent_stockout_risk db now 30 H 7 = Inr risks" by blast
  from risk_entry_scenario[OF st H ts pr q od] obtain r where
    e: "risk_entry db now 30 H 7 p = Inr (Some r)" and f: "rk_product_id r = p_id p"
      "rk_forecasted_demand r = 150" "rk_days_until_stockout r = 4"
      "is_sufficient (rk_pending_orders r)" "risk_level r = ''LOW''" by blast
  have "r \<in> set risks" using risk_rows_to[OF k p(1,2) _ e] st by simp
  with k f show "\<exists>risks r. detect_imminent_stockout_risk db now 30 H 7 = Inr risks \<and> r \<in> set risks \<and>
         rk_product_id r = p_id p \<and> rk_forecasted_demand r = 150 \<and>
         rk_days_until_stockout r = 4 \<and> is_sufficient (rk_pending_orders r) \<and>
         risk_level r = ''LOW''" by blast
qed

theorem stockout_risk_classification_witness:
  "\<exists>p po it risks r.
      products db_demo ! 0 = p \<and> is_active p \<and> current_stock p = 20 \<and>
      total_sold_since db_demo (date_of (minus_days now_demo 90)) (p_id p) = 5 * 90 \<and>
      pending_order_rows db_demo (p_id p) = [(po, it)] \<and> poi_quantity it = 140 \<and>
      order_date po = date_of now_demo - 2 \<and>
      detect_imminent_stockout_risk db_demo now_demo 30 90 7 = Inr risks \<and> r \<in> set risks \<and>
      rk_product_id r = p_id p \<and> rk_days_until_stockout r = 4 \<and>
      is_sufficient (rk_pending_orders r) \<and> risk_level r = ''LOW'' \<and>
      risk_level r = risk_classification (20 / 5) False True"
proof -
  define p where "p = products db_demo ! 0"
  have pin: "p \<in> set (products db_demo)" unfolding p_def by code_simp
  have act: "is_active p" unfolding p_def by code_simp
  have st: "current_stock p = 20" unfolding p_def by code_simp
  have ts: "total_sold_since db_demo (date_of (minus_days now_demo 90)) (p_id p) = 5 * of_int 90"
    unfolding p_def by code_simp
  have "map (\<lambda>(po, it). (poi_quantity it, order_date po)) (pending_order_rows db_demo (p_id p))
          = [(140, date_of now_demo - 2)]"
    unfolding p_def by code_simp
  then obtain po it where pr: "pending_order_rows db_demo (p_id p) = [(po, it)]"
    and q: "poi_quantity it = 140" and od: "order_date po = date_of now_demo - 2"
    by (auto simp: map_eq_Cons_conv)
  have H: "(0::int) < 90" by simp
  from stockout_risk_classification[THEN conjunct2, rule_format, OF pin act st H ts pr q od]
  obtain risks r where k: "detect_imminent_stockout_risk db_demo now_demo 30 90 7 = Inr risks"
    and r: "r \<in> set risks" and f: "rk_product_id r = p_id p" "rk_days_until_stockout r = 4"
      "is_sufficient (rk_pending_orders r)" "risk_level r = ''LOW''" by blast
  have c: "risk_classification (20 / 5) False True = ''LOW''"
    by (simp add: risk_classification_def)
  show ?thesis
  proof (intro exI conjI)
    show "products db_demo ! 0 = p" by (simp add: p_def)
    show "is_active p" by (rule act)
    show "current_stock p = 20" by (rule st)
    show "total_sold_since db_demo (date_of (minus_days now_demo 90)) (p_id p) = 5 * 90"
      using ts by simp
    show "pending_order_rows db_demo (p_id p) = [(po, it)]" by (rule pr)
    show "poi_quantity it = 140" by (rule q)
    show "order_date po = date_of now_demo - 2" by (rule od)
    show "detect_imminent_stockout_risk db_demo now_demo 30 90 7 = Inr risks" by (rule k)
    show "r \<in> set risks" by (rule r)
    show "rk_product_id r = p_id p" by (rule f)
    show "rk_days_until_stockout r = 4" by (rule f)
    show "is_sufficient (rk_pending_orders r)" by (rule f)
    show "risk_level r = ''LOW''" by (rule f)
    show "risk_level r = risk_classification (20 / 5) False True" using f(4) c by simp
  qed
qed

section \<open>Purchase suggestions: the suggested quantity\<close>

lemma suggestion_entry_sized:
  assumes "suggestion_entry db now F H M p = Inr (Some s)"
  shows "sg_product_id s = p_id p \<and> 0 < stock_needed db now F H p \<and>
         suggested_quantity s = size_order (stock_needed db now F H p)"
  using assms by (auto simp: suggestion_entry_def Let_def split: if_splits)

lemma suggestion_rows_from:
  assumes "suggest_purchase_order db now F H M = Inr suggestions" and "s \<in> set suggestions"
  shows "\<exists>p\<in>set (products db). is_active p \<and> suggestion_entry db now F H M p = Inr (Some s)"
proof -
  from assms(1) obtain rows where
    c: "py_for_collect (suggestion_entry db now F H M) [p \<leftarrow> products db. is_active p] = Inr rows"
    and e: "suggestions = sort_key (\<lambda>x. (priority_order (priority x), - order_value x)) rows"
    unfolding suggest_purchase_order_def by (auto split: sum.splits)
  from assms(2) e have "s \<in> set rows" by simp
  with py_for_collect_set[OF c] show ?thesis by auto
qed

lemma size_order_max: "size_order needed = max 1 (round_quantity (needed * (12 / 10)))"
  by (simp add: size_order_def Let_def max_def)

lemma py_round_step:
  assumes "0 < k"
  shows "\<bar>of_int (py_round (x / of_int k) * k) - x\<bar> \<le> of_int k / 2"
proof -
  have k: "(0::rat) < of_int k" using assms by simp
  have "\<bar>of_int (py_round (x / of_int k)) - x / of_int k\<bar> \<le> 1 / 2" by (rule py_round_nearest)
  then have "\<bar>of_int (py_round (x / of_int k)) - x / of_int k\<bar> * of_int k \<le> 1 / 2 * of_int k"
    using k by (intro mult_right_mono) simp_all
  moreover have "\<bar>of_int (py_round (x / of_int k)) - x / of_int k\<bar> * of_int k
      = \<bar>of_int (py_round (x / of_int k) * k) - x\<bar>"
  proof -
    have "\<bar>of_int (py_round (x / of_int k)) - x / of_int k\<bar> * of_int k
        = \<bar>(of_int (py_round (x / of_int k)) - x / of_int k) * of_int k\<bar>"
      using k by (simp add: abs_mult)
    also have "(of_int (py_round (x / of_int k)) - x / of_int k) * of_int k
        = of_int (py_round (x / of_int k) * k) - x"
      using k by (simp add: field_simps)
    finally show ?thesis .
  qed
  ultimately show ?thesis by simp
qed

lemma round_quantity_tiers:
  "(q < 10 \<longrightarrow> \<bar>of_int (round_quantity q) - q\<bar> \<le> 1 / 2) \<and>
   (10 \<le> q \<and> q < 100 \<longrightarrow> 5 dvd round_quantity q \<and> \<bar>of_int (round_quantity q) - q\<bar> \<le> 5 / 2) \<and>
   (100 \<le> q \<longrightarrow> 10 dvd round_quantity q \<and> \<bar>of_int (round_quantity q) - q\<bar> \<le> 5)"
proof (intro conjI impI)
  assume "q < 10"
  then show "\<bar>of_int (round_quantity q) - q\<bar> \<le> 1 / 2"
    using py_round_nearest[of q] by (simp add: round_quantity_def)
next
  assume a: "10 \<le> q \<and> q < 100"
  then have e: "round_quantity q = py_round (q / 5) * 5" by (simp add: round_quantity_def)
  show "5 dvd round_quantity q" unfolding e by simp
  show "\<bar>of_int (round_quantity q) - q\<bar> \<le> 5 / 2"
    unfolding e using py_round_step[of 5 q] by simp
next
  assume a: "100 \<le> q"
  then have e: "round_quantity q = py_round (q / 10) * 10" by (simp add: round_quantity_def)
  show "10 dvd round_quantity q" unfolding e by simp
  show "\<bar>of_int (round_quantity q) - q\<bar> \<le> 5"
    unfolding e using py_round_step[of 10 q] by simp
qed

text \<open>
  Claim C6. Every suggestion that \<open>suggest_purchase_order\<close> returns belongs to an active
  product with \<open>stock_needed > 0\<close>. With \<open>raw = stock_needed \<times> 1.2\<close> and \<open>q\<close> the rounded
  quantity, \<open>suggested_quantity\<close> is the larger of 1 and \<open>q\<close>, so it is never below 1; and
  \<open>q\<close> is a nearest unit when \<open>raw < 10\<close> (at most one half away), a nearest multiple of 5
  when \<open>10 \<le> raw < 100\<close> (at most 2.5 away) and a nearest multiple of 10 when \<open>raw \<ge> 100\<close>
  (at most 5 away).
\<close>
theorem purchase_sizing_floor:
  assumes "suggest_purchase_order db now days_forecast days_history min_order_value = Inr suggestions"
    and "s \<in> set suggestions"
  shows "\<exists>p\<in>set (products db). is_active p \<and> sg_product_id s = p_id p \<and>
           0 < stock_needed db now days_forecast days_history p \<and>
           (let raw = stock_needed db now days_forecast days_history p * (12 / 10);
                q = round_quantity raw
            in suggested_quantity s = max 1 q \<and> 1 \<le> suggested_quantity s \<and>
               (raw < 10 \<longrightarrow> \<bar>of_int q - raw\<bar> \<le> 1 / 2) \<and>
               (10 \<le> raw \<and> raw < 100 \<longrightarrow> 5 dvd q \<and> \<bar>of_int q - raw\<bar> \<le> 5 / 2) \<and>
               (100 \<le> raw \<longrightarrow> 10 dvd q \<and> \<bar>of_int q - raw\<bar> \<le> 5))"
proof -
  from suggestion_rows_from[OF assms] obtain p where p: "p \<in> set (products db)" "is_active p"
    and e: "suggestion_entry db now days_forecast days_history min_order_value p = Inr (Some s)"
    by auto
  from suggestion_entry_sized[OF e] have f: "sg_product_id s = p_id p"
    "0 < stock_needed db now days_forecast days_history p"
    "suggested_quantity s = size_order (stock_needed db now days_forecast days_history p)"
    by simp_all
  define raw where "raw = stock_needed db now days_forecast days_history p * (12 / 10)"
  have m: "suggested_quantity s = max 1 (round_quantity raw)"
    using f(3) unfolding raw_def by (simp only: size_order_max)
  then have g: "1 \<le> suggested_quantity s" by simp
  note t = round_quantity_tiers[of raw]
  have goal: "is_active p \<and> sg_product_id s = p_id p \<and>
       0 < stock_needed db now days_forecast days_history p \<and>
       suggested_quantity s = max 1 (round_quantity raw) \<and>
       1 \<le> suggested_quantity s \<and>
       (raw < 10 \<longrightarrow> \<bar>of_int (round_quantity raw) - raw\<bar> \<le> 1 / 2) \<and>
       (10 \<le> raw \<and> raw < 100 \<longrightarrow>
          5 dvd round_quantity raw \<and> \<bar>of_int (round_quantity raw) - raw\<bar> \<le> 5 / 2) \<and>
       (100 \<le> raw \<longrightarrow>
          10 dvd round_quantity raw \<and> \<bar>of_int (round_quantity raw) - raw\<bar> \<le> 5)"
    by (intro conjI p(2) f(1) f(2) m g t[THEN conjunct1] t[THEN conjunct2, THEN conjunct1]
        t[THEN conjunct2, THEN conjunct2])
  show ?thesis
    unfolding Let_def by (rule bexI[where x=p, OF _ p(1)]) (rule goal[unfolded raw_def])
qed

theorem purchase_sizing_floor_witness:
  "\<exists>suggestions s.
     suggest_purchase_order db_demo now_demo 30 90 10 = Inr suggestions \<and> s \<in> set suggestions \<and>
     sg_product_id s = 1 \<and> suggested_quantity s = 160 \<and> 1 \<le> suggested_quantity s \<and>
     (\<exists>p\<in>set (products db_demo). sg_product_id s = p_id p \<and>
        0 < stock_needed db_demo now_demo 30 90 p \<and>
        suggested_quantity s =
          max 1 (round_quantity (stock_needed db_demo now_demo 30 90 p * (12 / 10))))"
proof -
  have "map_sum id (map (\<lambda>s. (sg_product_id s, suggested_quantity s)))
          (suggest_purchase_order db_demo now_demo 30 90 10) = Inr [(3, 6), (2, 4), (1, 160)]"
    by code_simp
  then obtain suggestions where k: "suggest_purchase_order db_demo now_demo 30 90 10 = Inr suggestions"
    and l: "map (\<lambda>s. (sg_product_id s, suggested_quantity s)) suggestions = [(3, 6), (2, 4), (1, 160)]"
    by (cases "suggest_purchase_order db_demo now_demo 30 90 10") auto
  from l obtain a b s where abs: "suggestions = [a, b, s]" and i: "sg_product_id s = 1"
    and q: "suggested_quantity s = 160"
    by (auto simp: map_eq_Cons_conv)
  from abs have sin: "s \<in> set suggestions" by simp
  from purchase_sizing_floor[OF k sin]
  obtain p where pp: "p \<in> set (products db_demo)" "sg_product_id s = p_id p"
    "0 < stock_needed db_demo now_demo 30 90 p"
    "suggested_quantity s = max 1 (round_quantity (stock_needed db_demo now_demo 30 90 p * (12 / 10)))"
    "1 \<le> suggested_quantity s"
    unfolding Let_def by blast
  have b: "\<exists>p\<in>set (products db_demo). sg_product_id s = p_id p \<and>
        0 < stock_needed db_demo now_demo 30 90 p \<and>
        suggested_quantity s =
          max 1 (round_quantity (stock_needed db_demo now_demo 30 90 p * (12 / 10)))"
    by (rule bexI[where x=p, OF _ pp(1)]) (intro conjI pp(2) pp(3) pp(4))
  show ?thesis
    by (intro exI conjI) (rule k sin i q pp(5) b)+
qed

section \<open>Loss detection: when a product is reported\<close>

lemma set_map_filter_eq:
  "set (List.map_filter f xs) = {y. \<exists>x\<in>set xs. f x = Some y}"
  by (induction xs) (auto simp: split: option.splits)

lemma loss_rows:
  "r \<in> set (detect_stock_losses db tol) \<longleftrightarrow>
     (\<exists>p\<in>set (products db). is_active p \<and> loss_entry db tol p = Some r)"
  by (auto simp: detect_stock_losses_def set_map_filter_eq)

lemma expected_stock_no_movements:
  "product_movements db (p_id p) = [] \<Longrightarrow> expected_stock db p = 0"
  by (simp add: expected_stock_def)

lemma expected_stock_signed_sum:
  "expected_stock db p = (\<Sum>m\<leftarrow>[m \<leftarrow> stock_movements db. sm_product_id m = p_id p]. sm_quantity m)"
  by (simp add: expected_stock_def product_movements_def sum_list_map_sort_key)

lemma discrepancy_pct_expected_0: "expected_stock db p = 0 \<Longrightarrow> discrepancy_pct db p = 0"
  by (simp add: discrepancy_pct_def)

lemma discrepancy_pct_consistent: "current_stock p = expected_stock db p \<Longrightarrow> discrepancy_pct db p = 0"
  by (simp add: discrepancy_pct_def Let_def)

lemma discrepancy_pct_formula:
  "expected_stock db p \<noteq> 0 \<Longrightarrow>
     discrepancy_pct db p = \<bar>(expected_stock db p - current_stock p) / expected_stock db p\<bar> * 100"
proof -
  assume e: "expected_stock db p \<noteq> 0"
  have a: "\<bar>x * 100\<bar> = \<bar>x\<bar> * 100" for x :: rat by (simp add: abs_mult)
  show ?thesis unfolding discrepancy_pct_def Let_def using e by (simp only: a if_True not_False_eq_True simp_thms)
qed

lemma loss_entry_Some:
  "loss_entry db tol p = Some r \<Longrightarrow>
     ls_product_id r = p_id p \<and> tol < discrepancy_pct db p \<and>
     severity r = loss_severity (discrepancy_pct db p)"
  by (auto simp: loss_entry_def Let_def split: if_splits)

lemma loss_entry_reports:
  assumes "0 \<le> tol" and "tol < discrepancy_pct db p"
  shows "\<exists>r. loss_entry db tol p = Some r"
proof -
  have "product_movements db (p_id p) \<noteq> []"
  proof
    assume "product_movements db (p_id p) = []"
    then have "discrepancy_pct db p = 0"
      by (simp add: expected_stock_no_movements discrepancy_pct_expected_0)
    with assms show False by simp
  qed
  with assms(2) show ?thesis by (simp add: loss_entry_def Let_def)
qed

lemma reported_iff:
  assumes "distinct (map p_id (products db))" and "p \<in> set (products db)"
  shows "(\<exists>r\<in>set (detect_stock_losses db tol). ls_product_id r = p_id p) \<longleftrightarrow>
         is_active p \<and> (\<exists>r. loss_entry db tol p = Some r)"
proof
  assume "\<exists>r\<in>set (detect_stock_losses db tol). ls_product_id r = p_id p"
  then obtain r q where q: "q \<in> set (products db)" "is_active q" "loss_entry db tol q = Some r"
    and i: "ls_product_id r = p_id p" by (auto simp: loss_rows)
  from loss_entry_Some[OF q(3)] i have "p_id q = p_id p" by simp
  with assms q(1) have "q = p" by (simp add: distinct_map inj_on_def)
  with q show "is_active p \<and> (\<exists>r. loss_entry db tol p = Some r)" by auto
next
  assume "is_active p \<and> (\<exists>r. loss_entry db tol p = Some r)"
  then obtain r where a: "is_active p" and e: "loss_entry db tol p = Some r" by auto
  from a e assms(2) have "r \<in> set (detect_stock_losses db tol)" by (auto simp: loss_rows)
  moreover from loss_entry_Some[OF e] have "ls_product_id r = p_id p" by simp
  ultimately show "\<exists>r\<in>set (detect_stock_losses db tol). ls_product_id r = p_id p" by auto
qed

text \<open>
  Claim C7. With product ids unique, a tolerance that is not negative and an active product
  \<open>p\<close>: \<open>detect_stock_losses\<close> has a row for \<open>p\<close> if and only if the discrepancy percentage
  of \<open>p\<close> exceeds the tolerance; this percentage is \<open>|(expected - current) / expected| \<times> 100\<close>
  when the expected stock is not zero; the severity of the row is CRITICAL above 20, HIGH
  above 10 and MEDIUM otherwise; and when \<open>current_stock\<close> equals the signed sum of the
  product's movement quantities there is no row for \<open>p\<close>.
\<close>
theorem stock_losses_report_condition:
  assumes "distinct (map p_id (products db))" and "p \<in> set (products db)"
    and "is_active p" and "0 \<le> tolerance_percentage"
  shows "((\<exists>r\<in>set (detect_stock_losses db tolerance_percentage). ls_product_id r = p_id p) \<longleftrightarrow>
            tolerance_percentage < discrepancy_pct db p) \<and>
         (expected_stock db p \<noteq> 0 \<longrightarrow>
            discrepancy_pct db p =
              \<bar>(expected_stock db p - current_stock p) / expected_stock db p\<bar> * 100) \<and>
         (\<forall>r\<in>set (detect_stock_losses db tolerance_percentage). ls_product_id r = p_id p \<longrightarrow>
            severity r = (if 20 < discrepancy_pct db p then ''CRITICAL''
                          else if 10 < discrepancy_pct db p then ''HIGH'' else ''MEDIUM'')) \<and>
         (current_stock p =
            (\<Sum>m\<leftarrow>[m \<leftarrow> stock_movements db. sm_product_id m = p_id p]. sm_quantity m) \<longrightarrow>
            \<not> (\<exists>r\<in>set (detect_stock_losses db tolerance_percentage). ls_product_id r = p_id p))"
proof (intro conjI impI ballI)
  show rep: "(\<exists>r\<in>set (detect_stock_losses db tolerance_percentage). ls_product_id r = p_id p) \<longleftrightarrow>
          tolerance_percentage < discrepancy_pct db p"
    unfolding reported_iff[OF assms(1,2)]
    using assms(3) loss_entry_reports[OF assms(4)] loss_entry_Some by blast
  show "discrepancy_pct db p =
      \<bar>(expected_stock db p - current_stock p) / expected_stock db p\<bar> * 100"
    if "expected_stock db p \<noteq> 0" using that by (rule discrepancy_pct_formula)
  show "severity r = (if 20 < discrepancy_pct db p then ''CRITICAL''
                      else if 10 < discrepancy_pct db p then ''HIGH'' else ''MEDIUM'')"
    if r: "r \<in> set (detect_stock_losses db tolerance_percentage)" and i: "ls_product_id r = p_id p"
    for r
  proof -
    from r obtain q where q: "q \<in> set (products db)" "loss_entry db tolerance_percentage q = Some r"
      by (auto simp: loss_rows)
    from loss_entry_Some[OF q(2)] i have "p_id q = p_id p" by simp
    with assms(1,2) q(1) have "q = p" by (simp add: distinct_map inj_on_def)
    with loss_entry_Some[OF q(2)] show ?thesis by (simp add: loss_severity_def)
  qed
  show "\<not> (\<exists>r\<in>set (detect_stock_losses db tolerance_percentage). ls_product_id r = p_id p)"
    if "current_stock p =
        (\<Sum>m\<leftarrow>[m \<leftarrow> stock_movements db. sm_product_id m = p_id p]. sm_quantity m)"
  proof -
    from that have "current_stock p = expected_stock db p" by (simp add: expected_stock_signed_sum)
    then have "discrepancy_pct db p = 0" by (rule discrepancy_pct_consistent)
    with assms(4) rep show ?thesis by simp
  qed
qed

theorem stock_losses_report_condition_witness:
  "distinct (map p_id (products db_demo)) \<and>
   products db_demo ! 3 \<in> set (products db_demo) \<and> is_active (products db_demo ! 3) \<and>
   (0::rat) \<le> 5 \<and> discrepancy_pct db_demo (products db_demo ! 3) = 20 \<and>
   (\<exists>r\<in>set (detect_stock_losses db_demo 5).
      ls_product_id r = p_id (products db_demo ! 3) \<and> severity r = ''HIGH'') \<and>
   current_stock (products db_demo ! 0) = expected_stock db_demo (products db_demo ! 0) \<and>
   \<not> (\<exists>r\<in>set (detect_stock_losses db_demo 5). ls_product_id r = p_id (products db_demo ! 0))"
proof -
  have d: "distinct (map p_id (products db_demo))" by code_simp
  have pin: "products db_demo ! 3 \<in> set (products db_demo)" by code_simp
  have act: "is_active (products db_demo ! 3)" by code_simp
  have tol: "(0::rat) \<le> 5" by simp
  have pct: "discrepancy_pct db_demo (products db_demo ! 3) = 20" by code_simp
  note t = stock_losses_report_condition[OF d pin act tol]
  from t[THEN conjunct1] pct
  obtain r where r: "r \<in> set (detect_stock_losses db_demo 5)"
    and i: "ls_product_id r = p_id (products db_demo ! 3)" by auto
  from t[THEN conjunct2, THEN conjunct2, THEN conjunct1] r i pct
  have sv: "severity r = ''HIGH''" by simp
  have b: "\<exists>r\<in>set (detect_stock_losses db_demo 5).
      ls_product_id r = p_id (products db_demo ! 3) \<and> severity r = ''HIGH''"
    by (rule bexI[where x=r, OF _ r]) (intro conjI i sv)
  have pin0: "products db_demo ! 0 \<in> set (products db_demo)" by code_simp
  have act0: "is_active (products db_demo ! 0)" by code_simp
  have c0: "current_stock (products db_demo ! 0) = expected_stock db_demo (products db_demo ! 0)"
    by code_simp
  then have c0': "current_stock (products db_demo ! 0) =
      (\<Sum>m\<leftarrow>[m \<leftarrow> stock_movements db_demo. sm_product_id m = p_id (products db_demo ! 0)]. sm_quantity m)"
    by (simp only: expected_stock_signed_sum)
  from stock_losses_report_condition[OF d pin0 act0 tol, THEN conjunct2, THEN conjunct2, THEN conjunct2] c0'
  have n: "\<not> (\<exists>r\<in>set (detect_stock_losses db_demo 5). ls_product_id r = p_id (products db_demo ! 0))"
    by (rule mp)
  show ?thesis by (intro conjI d pin act tol pct b c0 n)
qed

text \<open>
  Claim C9. With product ids unique and a tolerance that is not negative, a product whose
  movements sum to exactly 0 has discrepancy percentage 0 and no row in the output of
  \<open>detect_stock_losses\<close>, whatever its \<open>current_stock\<close>.
\<close>
theorem stock_losses_zero_expected:
  assumes "distinct (map p_id (products db))" and "p \<in> set (products db)"
    and "0 \<le> tolerance_percentage" and "expected_stock db p = 0"
  shows "discrepancy_pct db p = 0 \<and>
         \<not> (\<exists>r\<in>set (detect_stock_losses db tolerance_percentage). ls_product_id r = p_id p)"
proof -
  have z: "discrepancy_pct db p = 0" using assms(4) by (rule discrepancy_pct_expected_0)
  have "\<not> (\<exists>r. loss_entry db tolerance_percentage p = Some r)"
  proof
    assume "\<exists>r. loss_entry db tolerance_percentage p = Some r"
    then obtain r where "loss_entry db tolerance_percentage p = Some r" ..
    from loss_entry_Some[OF this] z assms(3) show False by simp
  qed
  with reported_iff[OF assms(1,2)] z show ?thesis by simp
qed

theorem stock_losses_zero_expected_witness:
  "distinct (map p_id (products db_demo)) \<and>
   products db_demo ! 4 \<in> set (products db_demo) \<and> (0::rat) \<le> 5 \<and>
   expected_stock db_demo (products db_demo ! 4) = 0 \<and>
   current_stock (products db_demo ! 4) = 4 \<and>
   discrepancy_pct db_demo (products db_demo ! 4) = 0 \<and>
   \<not> (\<exists>r\<in>set (detect_stock_losses db_demo 5). ls_product_id r = p_id (products db_demo ! 4))"
proof -
  have d: "distinct (map p_id (products db_demo))" by code_simp
  have pin: "products db_demo ! 4 \<in> set (products db_demo)" by code_simp
  have tol: "(0::rat) \<le> 5" by simp
  have e: "expected_stock db_demo (products db_demo ! 4) = 0" by code_simp
  have c: "current_stock (products db_demo ! 4) = 4" by code_simp
  note t = stock_losses_zero_expected[OF d pin tol e]
  show ?thesis by (intro conjI d pin tol e c t[THEN conjunct1] t[THEN conjunct2])
qed

section \<open>Alert aggregator: the health score\<close>

lemma rupture_entry_never_raises:
  "L \<noteq> 0 \<Longrightarrow> \<exists>y. rupture_entry db now L p = Inr y"
  by (simp add: rupture_entry_def Let_def)

lemma detect_rupture_returns:
  assumes "L \<noteq> 0"
  shows "\<exists>ruptures. detect_stock_rupture db now L = Inr ruptures"
  unfolding detect_stock_rupture_def
  by (rule py_for_collect_total) (rule rupture_entry_never_raises[OF assms])

lemma suggestion_entry_never_raises:
  "H \<noteq> 0 \<Longrightarrow> \<exists>y. suggestion_entry db now F H M p = Inr y"
  by (simp add: suggestion_entry_def Let_def)

lemma suggest_returns:
  assumes "H \<noteq> 0"
  shows "\<exists>suggestions. suggest_purchase_order db now F H M = Inr suggestions"
proof -
  have "\<exists>rows. py_for_collect (suggestion_entry db now F H M) [p \<leftarrow> products db. is_active p] = Inr rows"
    by (rule py_for_collect_total) (rule suggestion_entry_never_raises[OF assms])
  then show ?thesis by (auto simp: suggest_purchase_order_def)
qed

lemma get_stock_alerts_returns: "\<exists>res. get_stock_alerts db now = Inr res"
proof -
  obtain risks where a: "detect_imminent_stockout_risk db now 30 90 7 = Inr risks"
    using detect_risk_returns[of 90 db now 30 7] by auto
  obtain ruptures where b: "detect_stock_rupture db now 14 = Inr ruptures"
    using detect_rupture_returns[of 14 db now] by auto
  obtain suggestions where c: "suggest_purchase_order db now 30 90 100 = Inr suggestions"
    using suggest_returns[of 90 db now 30 100] by auto
  show ?thesis unfolding get_stock_alerts_def by (simp add: a b c Let_def)
qed

lemma get_stock_alerts_score:
  "get_stock_alerts db now = Inr res \<Longrightarrow>
     health_score res = compute_health_score (critical_alerts res) (warnings res) \<and>
     health_status res = health_status_of (health_score res)"
  unfolding get_stock_alerts_def
  by (auto simp: Let_def split: sum.splits)

text \<open>
  Claim C8. For every database and clock reading \<open>get_stock_alerts\<close> returns a result (no
  detector raises with the aggregator's fixed arguments). Its \<open>health_score\<close> is 100 minus 15
  for each critical alert and 5 for each warning, and 0 when that is negative, so it lies
  between 0 and 100; its \<open>health_status\<close> is EXCELLENT from 80, GOOD from 60, FAIR from 40
  and POOR below.
\<close>
theorem health_score_and_status:
  "\<exists>res. get_stock_alerts db now = Inr res \<and>
     health_score res =
       max 0 (100 - 15 * int (length (critical_alerts res)) - 5 * int (length (warnings res))) \<and>
     0 \<le> health_score res \<and> health_score res \<le> 100 \<and>
     health_status res =
       (if 80 \<le> health_score res then ''EXCELLENT''
        else if 60 \<le> health_score res then ''GOOD''
        else if 40 \<le> health_score res then ''FAIR''
        else ''POOR'')"
proof -
  from get_stock_alerts_returns obtain res where r: "get_stock_alerts db now = Inr res" ..
  from get_stock_alerts_score[OF r]
  have s: "health_score res = compute_health_score (critical_alerts res) (warnings res)"
    and t: "health_status res = health_status_of (health_score res)" by simp_all
  have s': "health_score res =
       max 0 (100 - 15 * int (length (critical_alerts res)) - 5 * int (length (warnings res)))"
    using s by (simp add: compute_health_score_def)
  have lo: "0 \<le> health_score res" and hi: "health_score res \<le> 100"
    using s' by simp_all
  have t': "health_status res =
       (if 80 \<le> health_score res then ''EXCELLENT''
        else if 60 \<le> health_score res then ''GOOD''
        else if 40 \<le> health_score res then ''FAIR''
        else ''POOR'')"
    using t by (simp only: health_status_of_def)
  show ?thesis by (rule exI[where x=res]) (intro conjI r s' lo hi t')
qed

theorem health_score_and_status_witness:
  "\<exists>res. get_stock_alerts db_demo now_demo = Inr res \<and>
     length (critical_alerts res) = 3 \<and> length (warnings res) = 2 \<and>
     health_score res = 45 \<and> health_status res = ''FAIR''"
proof -
  have "map_sum id (\<lambda>res. (length (critical_alerts res), length (warnings res)))
          (get_stock_alerts db_demo now_demo) = Inr (3, 2)"
    by code_simp
  then obtain res0 where r0: "get_stock_alerts db_demo now_demo = Inr res0"
    and c: "length (critical_alerts res0) = 3" and w: "length (warnings res0) = 2"
    by (cases "get_stock_alerts db_demo now_demo") auto
  from health_score_and_status[of db_demo now_demo] obtain res where
    r: "get_stock_alerts db_demo now_demo = Inr res"
    and s: "health_score res =
       max 0 (100 - 15 * int (length (critical_alerts res)) - 5 * int (length (warnings res)))"
    and t: "health_status res =
       (if 80 \<le> health_score res then ''EXCELLENT''
        else if 60 \<le> health_score res then ''GOOD''
        else if 40 \<le> health_score res then ''FAIR''
        else ''POOR'')" by blast
  from r r0 have e: "res = res0" by simp
  have s45: "health_score res = 45" using s c w unfolding e by simp
  have st: "health_status res = ''FAIR''" using t unfolding s45 by simp
  show ?thesis
    by (rule exI[where x=res]) (intro conjI r c[folded e] w[folded e] s45 st)
qed

end
